theory Spec2Isabelle
  imports Complex_Main "HOL-Library.Multiset" "HOL-Library.AList"
begin

section \<open>Strings and letter case\<close>

text \<open>
  A string is a list of characters; the text of the examples is ASCII.
  Upper-casing a method is the platform's \<open>String.prototype.toUpperCase\<close>, a parameter
  (see the record \<open>platform\<close> below). On a string of ASCII characters it maps the 26
  lower-case letters to their capitals and leaves every other character alone:
  \<open>upper_ascii\<close>. Header names are compared as the Fetch standard does, after
  lower-casing the 26 ASCII capitals: \<open>byte_lowercase\<close>.
\<close>

definition is_lower_ascii :: "char \<Rightarrow> bool" where
  "is_lower_ascii c = (97 \<le> (of_char c :: nat) \<and> (of_char c :: nat) \<le> 122)"

definition is_upper_ascii :: "char \<Rightarrow> bool" where
  "is_upper_ascii c = (65 \<le> (of_char c :: nat) \<and> (of_char c :: nat) \<le> 90)"

definition upper_char :: "char \<Rightarrow> char" where
  "upper_char c = (if is_lower_ascii c then char_of ((of_char c :: nat) - 32) else c)"

definition lower_char :: "char \<Rightarrow> char" where
  "lower_char c = (if is_upper_ascii c then char_of ((of_char c :: nat) + 32) else c)"

definition upper_ascii :: "string \<Rightarrow> string" where
  "upper_ascii s = map upper_char s"

definition byte_lowercase :: "string \<Rightarrow> string" where
  "byte_lowercase s = map lower_char s"

definition ascii_only :: "string \<Rightarrow> bool" where
  "ascii_only s = list_all (\<lambda>c. (of_char c :: nat) < 128) s"

text \<open>
  Two characters are the same letter in possibly different case; two strings differ
  only in letter case when they do so position by position.
\<close>

definition same_letter :: "char \<Rightarrow> char \<Rightarrow> bool" where
  "same_letter c d =
     (c = d \<or>
      (is_lower_ascii c \<and> is_upper_ascii d \<and> (of_char c :: nat) = of_char d + 32) \<or>
      (is_upper_ascii c \<and> is_lower_ascii d \<and> (of_char d :: nat) = of_char c + 32))"

definition differ_only_in_case :: "string \<Rightarrow> string \<Rightarrow> bool" where
  "differ_only_in_case s t = list_all2 same_letter s t"

text \<open>Decimal rendering of a natural number, as a template literal renders an integer.\<close>

fun digits_of :: "nat \<Rightarrow> nat \<Rightarrow> string" where
  "digits_of 0 n = []"
| "digits_of (Suc fuel) n =
     (if n < 10 then [char_of (48 + n)]
      else digits_of fuel (n div 10) @ [char_of (48 + n mod 10)])"

definition show_nat :: "nat \<Rightarrow> string" where
  "show_nat n = digits_of (Suc n) n"

section \<open>JavaScript values and the platform\<close>

datatype json =
    JNull
  | JBool bool
  | JNum real
  | JStr string
  | JArr "json list"
  | JObj "(string \<times> json) list"

text \<open>
  Numbers are reals: rounding and the infinite values of a JavaScript number are left out.
  The builtins the transport calls are parameters: \<open>String.prototype.toUpperCase\<close>,
  \<open>JSON.parse\<close> (\<open>None\<close> when it throws), \<open>JSON.stringify\<close>, \<open>parseFloat\<close>
  (\<open>None\<close> for NaN), the rendering of a number as a string and
  \<open>URLSearchParams.toString\<close>.
\<close>

record platform =
  toUpperCase :: "string \<Rightarrow> string"
  JSON_parse :: "string \<Rightarrow> json option"
  JSON_stringify :: "json \<Rightarrow> string"
  parseFloat :: "string \<Rightarrow> real option"
  Number_toString :: "real \<Rightarrow> string"
  URLSearchParams_toString :: "(string \<times> string) list \<Rightarrow> string"

text \<open>Property access \<open>v.k\<close> on a parsed value: \<open>None\<close> is \<open>undefined\<close>; on \<open>null\<close> it throws.\<close>

fun get_prop :: "json \<Rightarrow> string \<Rightarrow> json option" where
  "get_prop (JObj kvs) k = map_of kvs k"
| "get_prop _ k = None"

text \<open>\<open>a ?? b\<close>: the right operand when the left is \<open>undefined\<close> or \<open>null\<close>.\<close>

fun nullish :: "json option \<Rightarrow> json \<Rightarrow> json" where
  "nullish None b = b"
| "nullish (Some JNull) b = b"
| "nullish (Some a) b = a"

fun truthy :: "json \<Rightarrow> bool" where
  "truthy JNull = False"
| "truthy (JBool b) = b"
| "truthy (JNum n) = (n \<noteq> 0)"
| "truthy (JStr s) = (s \<noteq> [])"
| "truthy (JArr xs) = True"
| "truthy (JObj kvs) = True"

text \<open>The values that are not objects, and a property that is absent or no object.\<close>

fun primitive :: "json \<Rightarrow> bool" where
  "primitive (JArr xs) = False"
| "primitive (JObj kvs) = False"
| "primitive v = True"

definition plain_field :: "json \<Rightarrow> string \<Rightarrow> bool" where
  "plain_field v k = (case get_prop v k of None \<Rightarrow> True | Some x \<Rightarrow> primitive x)"

fun join_with :: "string \<Rightarrow> string list \<Rightarrow> string" where
  "join_with sep [] = []"
| "join_with sep [x] = x"
| "join_with sep (x # y # ys) = x @ sep @ join_with sep (y # ys)"

section \<open>Errors\<close>

record APIError =
  ae_message :: string
  statusCode :: nat
  errorCode :: "json option"
  detail :: "json option"
  responseHeaders :: "string \<rightharpoonup> string"
  responseBody :: "json option"

text \<open>
  \<open>JSError\<close> is a plain \<open>Error\<close> (or an error of the network stack) with its message;
  \<open>TypeError\<close> and \<open>RangeError\<close> are the engine's, whose messages are its own and are
  left out; the other three are the SDK's own classes.
\<close>

datatype error =
    JSError string
  | TypeError
  | RangeError
  | FoxnoseAuthError string
  | FoxnoseTransportError string
  | FoxnoseAPIError APIError

text \<open>
  \<open>String(v)\<close>, which a template literal applies to an interpolated value. A parsed object
  has \<open>Object.prototype.toString\<close> unless it has a key \<open>toString\<close> of its own, whose
  value is never a function: then the conversion throws a \<open>TypeError\<close>. An array joins
  the strings of its elements, \<open>null\<close> giving the empty string.
\<close>

fun js_String :: "(real \<Rightarrow> string) \<Rightarrow> json \<Rightarrow> error + string"
  and js_join :: "(real \<Rightarrow> string) \<Rightarrow> json list \<Rightarrow> error + string list" where
  "js_String num JNull = Inr ''null''"
| "js_String num (JBool b) = Inr (if b then ''true'' else ''false'')"
| "js_String num (JNum n) = Inr (num n)"
| "js_String num (JStr s) = Inr s"
| "js_String num (JArr xs) =
     (case js_join num xs of Inl e \<Rightarrow> Inl e | Inr parts \<Rightarrow> Inr (join_with '','' parts))"
| "js_String num (JObj kvs) =
     (if map_of kvs ''toString'' \<noteq> None then Inl TypeError else Inr ''[object Object]'')"
| "js_join num [] = Inr []"
| "js_join num (x # xs) =
     (case (if x = JNull then Inr [] else js_String num x) of
        Inl e \<Rightarrow> Inl e
      | Inr part \<Rightarrow>
          (case js_join num xs of Inl e \<Rightarrow> Inl e | Inr parts \<Rightarrow> Inr (part # parts)))"

text \<open>
  The constructor of \<open>FoxnoseAPIError\<close>: the message is decorated with the status and,
  when the error code is truthy, with the error code. Both template literals can throw.
\<close>

record APIErrorOptions =
  opt_message :: json
  opt_statusCode :: nat
  opt_errorCode :: "json option"
  opt_detail :: "json option"
  opt_responseHeaders :: "string \<rightharpoonup> string"
  opt_responseBody :: "json option"

definition error_code_suffix :: "platform \<Rightarrow> json option \<Rightarrow> error + string" where
  "error_code_suffix P ec_opt =
     (case ec_opt of
        None \<Rightarrow> Inr []
      | Some ec \<Rightarrow>
          if truthy ec then
            (case js_String (Number_toString P) ec of
               Inl e \<Rightarrow> Inl e
             | Inr s \<Rightarrow> Inr ('', error_code='' @ s))
          else Inr [])"

definition new_FoxnoseAPIError :: "platform \<Rightarrow> APIErrorOptions \<Rightarrow> error + APIError" where
  "new_FoxnoseAPIError P opts =
     (case error_code_suffix P (opt_errorCode opts) of
        Inl e \<Rightarrow> Inl e
      | Inr code \<Rightarrow>
          (case js_String (Number_toString P) (opt_message opts) of
             Inl e \<Rightarrow> Inl e
           | Inr m \<Rightarrow>
               Inr \<lparr> ae_message = m @ '' (status='' @ show_nat (opt_statusCode opts) @ code @ '')'',
                     statusCode = opt_statusCode opts,
                     errorCode = opt_errorCode opts,
                     detail = opt_detail opts,
                     responseHeaders = opt_responseHeaders opts,
                     responseBody = opt_responseBody opts \<rparr>))"

section \<open>Configuration\<close>

record RetryConfig =
  attempts :: nat
  backoffFactor :: real
  statusCodes :: "nat list"
  methods :: "string list"

definition DEFAULT_RETRY_CONFIG :: RetryConfig where
  "DEFAULT_RETRY_CONFIG =
     \<lparr> attempts = 3, backoffFactor = 0.5,
       statusCodes = [408, 425, 429, 500, 502, 503, 504],
       methods = [''GET'', ''HEAD'', ''OPTIONS'', ''PUT'', ''DELETE''] \<rparr>"

record FoxnoseConfig =
  baseUrl :: string
  timeout :: nat
  defaultHeaders :: "(string \<rightharpoonup> string) option"
  userAgent :: string

section \<open>Retry decisions\<close>

definition shouldRetry :: "platform \<Rightarrow> RetryConfig \<Rightarrow> string \<Rightarrow> nat \<Rightarrow> bool" where
  "shouldRetry P retry meth status =
     (if toUpperCase P meth \<notin> set (methods retry) then False
      else status \<in> set (statusCodes retry))"

text \<open>
  \<open>retryAfter\<close> is what \<open>headers.get\<close> gave: \<open>None\<close> for an absent header. The guard
  \<open>if (retryAfter)\<close> is false for both an absent header and an empty value.
\<close>

definition computeDelay :: "platform \<Rightarrow> RetryConfig \<Rightarrow> nat \<Rightarrow> string option \<Rightarrow> real" where
  "computeDelay P retry attempt retryAfter =
     (case retryAfter of
        Some s \<Rightarrow>
          if s \<noteq> [] then
            (case parseFloat P s of Some parsed \<Rightarrow> parsed * 1000 | None \<Rightarrow> 0)
          else backoffFactor retry * 2 ^ nat (max (int attempt - 1) 0) * 1000
      | None \<Rightarrow> backoffFactor retry * 2 ^ nat (max (int attempt - 1) 0) * 1000)"

definition handleTransportError ::
  "platform \<Rightarrow> RetryConfig \<Rightarrow> string \<Rightarrow> string \<Rightarrow> nat \<Rightarrow> error + real" where
  "handleTransportError P retry err_message meth attempt =
     (let canRetry = (toUpperCase P meth \<in> set (methods retry) \<and> attempt < attempts retry)
      in if \<not> canRetry then Inl (FoxnoseTransportError err_message)
         else Inr (computeDelay P retry attempt None))"

section \<open>Auth strategies\<close>

text \<open>
  The view of the outbound request given to an auth strategy. A body of \<open>None\<close> is
  \<open>undefined\<close>, which the transport never passes.
\<close>

record RequestData =
  rd_method :: string
  rd_url :: string
  rd_path :: string
  rd_body :: "string option"

text \<open>
  The \<open>AuthStrategy\<close> interface: \<open>buildHeaders\<close> returns a header mapping or throws.
\<close>

type_synonym AuthStrategy = "RequestData \<Rightarrow> error + (string \<rightharpoonup> string)"

definition AnonymousAuth_buildHeaders :: AuthStrategy where
  "AnonymousAuth_buildHeaders request = Inr Map.empty"

text \<open>A token provider is its \<open>getToken\<close>; the static one always returns its token.\<close>

type_synonym TokenProvider = "unit \<Rightarrow> string"

definition StaticTokenProvider :: "string \<Rightarrow> TokenProvider" where
  "StaticTokenProvider token = (\<lambda>u. token)"

record JWTAuth =
  provider :: TokenProvider
  scheme :: string

definition new_JWTAuth :: "TokenProvider \<Rightarrow> string option \<Rightarrow> JWTAuth" where
  "new_JWTAuth p sch =
     \<lparr> provider = p, scheme = (case sch of None \<Rightarrow> ''Bearer'' | Some s \<Rightarrow> s) \<rparr>"

definition JWTAuth_buildHeaders :: "JWTAuth \<Rightarrow> AuthStrategy" where
  "JWTAuth_buildHeaders self request =
     (let token = provider self ()
      in if token = [] then Inl (JSError ''Token provider returned an empty token'')
         else Inr [''Authorization'' \<mapsto> scheme self @ '' '' @ token])"

definition fromStaticToken :: "string \<Rightarrow> string option \<Rightarrow> JWTAuth" where
  "fromStaticToken token sch = new_JWTAuth (StaticTokenProvider token) sch"

record SimpleKeyAuth =
  sk_publicKey :: string
  sk_secretKey :: string

definition new_SimpleKeyAuth :: "string \<Rightarrow> string \<Rightarrow> error + SimpleKeyAuth" where
  "new_SimpleKeyAuth pub sec =
     (if pub = [] \<or> sec = [] then Inl (JSError ''publicKey and secretKey are required'')
      else Inr \<lparr> sk_publicKey = pub, sk_secretKey = sec \<rparr>)"

definition SimpleKeyAuth_buildHeaders :: "SimpleKeyAuth \<Rightarrow> AuthStrategy" where
  "SimpleKeyAuth_buildHeaders self request =
     Inr [''Authorization'' \<mapsto> ''Simple '' @ sk_publicKey self @ '':'' @ sk_secretKey self]"

subsection \<open>Signature-based auth\<close>

text \<open>
  A \<open>Date\<close> holds a time value: a whole number of milliseconds since the epoch, of
  magnitude at most 8.64e15, or NaN (an Invalid Date). A time outside that range is not
  a date either: constructing it gives an Invalid Date.
\<close>

datatype JSDate = Invalid_Date | Time int

definition valid_time :: "int \<Rightarrow> bool" where
  "valid_time t = (\<bar>t\<bar> \<le> 8640000000000000)"

text \<open>
  The year, month and day of month, in the proleptic Gregorian calendar, of a day counted
  from the epoch: by 400-year eras of 146097 days, with the year taken to start in March.
\<close>

definition date_from_days :: "int \<Rightarrow> int \<times> nat \<times> nat" where
  "date_from_days days =
     (let shifted = days + 719468;
          era = shifted div 146097;
          day_of_era = shifted mod 146097;
          year_of_era = (day_of_era - day_of_era div 1460 + day_of_era div 36524
                           - day_of_era div 146096) div 365;
          day_of_year = day_of_era - (365 * year_of_era + year_of_era div 4
                                        - year_of_era div 100);
          mp = (5 * day_of_year + 2) div 153;
          day = day_of_year - (153 * mp + 2) div 5 + 1;
          month = (if mp < 10 then mp + 3 else mp - 9)
      in (year_of_era + era * 400 + (if month \<le> 2 then 1 else 0), nat month, nat day))"

definition pad_left :: "nat \<Rightarrow> nat \<Rightarrow> string" where
  "pad_left w n = replicate (w - length (show_nat n)) CHR ''0'' @ show_nat n"

text \<open>Years 0 to 9999 have four digits; the others a sign and six digits.\<close>

definition year_string :: "int \<Rightarrow> string" where
  "year_string y =
     (if 0 \<le> y \<and> y \<le> 9999 then pad_left 4 (nat y)
      else (if y < 0 then ''-'' else ''+'') @ pad_left 6 (nat \<bar>y\<bar>))"

text \<open>
  \<open>YYYY-MM-DDTHH:mm:ss\<close> for a whole number of seconds since the epoch, and
  \<open>toISOString\<close>, which appends the milliseconds and throws a \<open>RangeError\<close> on an
  Invalid Date.
\<close>

definition date_time_part :: "int \<Rightarrow> string" where
  "date_time_part secs =
     (case date_from_days (secs div 86400) of
        (y, m, d) \<Rightarrow>
          year_string y @ ''-'' @ pad_left 2 m @ ''-'' @ pad_left 2 d
          @ ''T'' @ pad_left 2 (nat (secs div 3600 mod 24)) @ '':''
          @ pad_left 2 (nat (secs div 60 mod 60)) @ '':'' @ pad_left 2 (nat (secs mod 60)))"

definition toISOString :: "JSDate \<Rightarrow> error + string" where
  "toISOString d =
     (case d of
        Invalid_Date \<Rightarrow> Inl RangeError
      | Time t \<Rightarrow>
          if valid_time t
          then Inr (date_time_part (t div 1000) @ ''.'' @ pad_left 3 (nat (t mod 1000)) @ ''Z'')
          else Inl RangeError)"

definition is_digit :: "char \<Rightarrow> bool" where
  "is_digit c = (48 \<le> (of_char c :: nat) \<and> (of_char c :: nat) \<le> 57)"

text \<open>
  The \<open>replace\<close> applied to the ISO string: a final dot, three digits and \<open>Z\<close> become
  \<open>Z\<close>.
\<close>

definition replace_millis :: "string \<Rightarrow> string" where
  "replace_millis s =
     (case drop (length s - 5) s of
        [a, b, c, d, e] \<Rightarrow>
          if a = CHR ''.'' \<and> is_digit b \<and> is_digit c \<and> is_digit d \<and> e = CHR ''Z''
          then take (length s - 5) s @ ''Z''
          else s
      | _ \<Rightarrow> s)"

text \<open>
  What \<open>buildHeaders\<close> takes from Node: \<open>new URL(u)\<close> (\<open>None\<close> when it throws,
  else the pathname and the search), the SHA-256 hex digest, the signer and the base64
  rendering of a buffer. The signer is given the key and the text to sign, and what it
  returns may change from one call to the next (an ECDSA signature draws a fresh nonce):
  its first argument stands for what the call draws. It throws on a key it cannot load.
\<close>

record node_platform =
  URL_parse :: "string \<Rightarrow> (string \<times> string) option"
  sha256_hex :: "string \<Rightarrow> string"
  createSign_sign :: "nat \<Rightarrow> string \<Rightarrow> string \<Rightarrow> error + string"
  toString_base64 :: "string \<Rightarrow> string"

text \<open>An instance as its constructor leaves it: the public key, the PEM text, the clock.\<close>

record SecureKeyAuth =
  sec_publicKey :: string
  sec_privateKeyPem :: string
  sec_clock :: "unit \<Rightarrow> JSDate"

definition signing_timestamp :: "SecureKeyAuth \<Rightarrow> error + string" where
  "signing_timestamp self =
     (case toISOString (sec_clock self ()) of
        Inl e \<Rightarrow> Inl e
      | Inr iso_text \<Rightarrow> Inr (replace_millis iso_text))"

definition signed_path :: "node_platform \<Rightarrow> RequestData \<Rightarrow> string" where
  "signed_path N request =
     (case URL_parse N (rd_url request) of
        Some (pathname, search) \<Rightarrow>
          (let path = (if pathname \<noteq> [] then pathname else ''/'')
           in if search \<noteq> [] then path @ search else path)
      | None \<Rightarrow> (if rd_path request \<noteq> [] then rd_path request else ''/''))"

text \<open>\<open>request.body ?? new Uint8Array(0)\<close>.\<close>

definition body_or_empty :: "RequestData \<Rightarrow> string" where
  "body_or_empty request = (case rd_body request of None \<Rightarrow> [] | Some b \<Rightarrow> b)"

definition dataToSign :: "node_platform \<Rightarrow> RequestData \<Rightarrow> string \<Rightarrow> string" where
  "dataToSign N request timestamp =
     signed_path N request @ ''|'' @ sha256_hex N (body_or_empty request) @ ''|'' @ timestamp"

definition SecureKeyAuth_buildHeaders ::
  "node_platform \<Rightarrow> nat \<Rightarrow> SecureKeyAuth \<Rightarrow> AuthStrategy" where
  "SecureKeyAuth_buildHeaders N draw self request =
     (case signing_timestamp self of
        Inl e \<Rightarrow> Inl e
      | Inr timestamp \<Rightarrow>
          (case createSign_sign N draw (sec_privateKeyPem self)
                  (dataToSign N request timestamp) of
             Inl e \<Rightarrow> Inl e
           | Inr signatureBuffer \<Rightarrow>
               Inr [''Authorization'' \<mapsto>
                      ''Secure '' @ sec_publicKey self @ '':''
                        @ toString_base64 N signatureBuffer,
                    ''Date'' \<mapsto> timestamp]))"

section \<open>Request construction\<close>

text \<open>
  A query parameter value: \<open>undefined\<close>, \<open>null\<close>, or any other value through its
  \<open>String(value)\<close>.
\<close>

datatype param = PUndefined | PNull | PValue string

fun param_String :: "param \<Rightarrow> string" where
  "param_String PUndefined = ''undefined''"
| "param_String PNull = ''null''"
| "param_String (PValue s) = s"

text \<open>
  The options of \<open>request\<close>. \<open>None\<close> is an omitted (or \<open>undefined\<close>) option; a
  \<open>jsonBody\<close> of \<open>null\<close> is \<open>Some JNull\<close>. Omitting the whole options object is
  all four being \<open>None\<close>.
\<close>

record RequestOptions =
  ro_params :: "(string \<times> param) list option"
  ro_jsonBody :: "json option"
  ro_content :: "string option"
  ro_headers :: "(string \<rightharpoonup> string) option"

datatype BodyInit = BodyText string | BodyBytes string

record RequestInit =
  ri_method :: string
  ri_headers :: "string \<rightharpoonup> string"
  ri_body :: "BodyInit option"

record BuiltRequest =
  br_url :: string
  br_init :: RequestInit
  br_body :: string

definition buildUrl ::
  "platform \<Rightarrow> FoxnoseConfig \<Rightarrow> string \<Rightarrow> (string \<times> param) list option \<Rightarrow> string" where
  "buildUrl P config path params =
     (let base = baseUrl config @ path
      in case params of
           None \<Rightarrow> base
         | Some ps \<Rightarrow>
             if ps = [] then base
             else
               (let searchParams =
                      map (\<lambda>(k, v). (k, param_String v))
                        (filter (\<lambda>(k, v). v \<noteq> PUndefined \<and> v \<noteq> PNull) ps);
                    qs = URLSearchParams_toString P searchParams
                in if qs \<noteq> [] then base @ ''?'' @ qs else base))"

text \<open>
  A header record is an object created by \<open>{}\<close> that holds string properties.
  \<open>obj[key] = value\<close> sets a property of its own, except for the key \<open>__proto__\<close>: that
  is the accessor of \<open>Object.prototype\<close>, whose setter ignores a string.
  \<open>Object.assign(target, source)\<close> assigns each property of the source in this way.
\<close>

definition set_property ::
  "(string \<rightharpoonup> string) \<Rightarrow> string \<Rightarrow> string \<Rightarrow> (string \<rightharpoonup> string)" where
  "set_property obj key v = (if key = ''__proto__'' then obj else obj(key \<mapsto> v))"

definition Object_assign :: "(string \<rightharpoonup> string) \<Rightarrow> (string \<rightharpoonup> string) \<Rightarrow> (string \<rightharpoonup> string)" where
  "Object_assign target source =
     (\<lambda>key. if key = ''__proto__'' then target key else (target ++ source) key)"

definition buildRequest ::
  "platform \<Rightarrow> FoxnoseConfig \<Rightarrow> AuthStrategy \<Rightarrow> string \<Rightarrow> string \<Rightarrow> RequestOptions
     \<Rightarrow> error + BuiltRequest" where
  "buildRequest P config auth meth path options =
     (let headers0 = (case defaultHeaders config of
                        None \<Rightarrow> Map.empty
                      | Some d \<Rightarrow> Object_assign Map.empty d);
          headers1 = (case headers0 ''User-Agent'' of
                        None \<Rightarrow> headers0(''User-Agent'' \<mapsto> userAgent config)
                      | Some ua \<Rightarrow> headers0);
          headers2 = (case ro_headers options of
                        None \<Rightarrow> headers1
                      | Some h \<Rightarrow> Object_assign headers1 h);
          (body, bodyInit, headers3) =
            (case ro_jsonBody options of
               Some j \<Rightarrow>
                 (let jsonStr = JSON_stringify P j
                  in (jsonStr, Some (BodyText jsonStr),
                      (case headers2 ''Content-Type'' of
                         None \<Rightarrow> headers2(''Content-Type'' \<mapsto> ''application/json'')
                       | Some ct \<Rightarrow> headers2)))
             | None \<Rightarrow>
                 (case ro_content options of
                    Some c \<Rightarrow> (c, Some (BodyBytes c), headers2)
                  | None \<Rightarrow> ([], None, headers2)));
          url = buildUrl P config path (ro_params options);
          requestData =
            \<lparr> rd_method = toUpperCase P meth,
              rd_url = url,
              rd_path = path @
                (case ro_params options of
                   None \<Rightarrow> []
                 | Some ps \<Rightarrow>
                     ''?'' @ URLSearchParams_toString P (map (\<lambda>(k, v). (k, param_String v)) ps)),
              rd_body = Some body \<rparr>
      in case auth requestData of
           Inl e \<Rightarrow> Inl e
         | Inr authHeaders \<Rightarrow>
             Inr \<lparr> br_url = url,
                   br_init = \<lparr> ri_method = toUpperCase P meth,
                               ri_headers = Object_assign headers3 authHeaders,
                               ri_body = bodyInit \<rparr>,
                   br_body = body \<rparr>)"

section \<open>Responses\<close>

text \<open>
  A received response: its status, its headers as the \<open>Headers\<close> object iterates them
  (lower-case names, one entry per name), and what \<open>text()\<close> resolves to, \<open>Inl\<close> when
  reading the body rejects.
\<close>

record Response =
  status :: nat
  resp_headers :: "(string \<times> string) list"
  resp_text :: "error + string"

definition Headers_get :: "(string \<times> string) list \<Rightarrow> string \<Rightarrow> string option" where
  "Headers_get hs name = map_of (map (\<lambda>(k, v). (byte_lowercase k, v)) hs) (byte_lowercase name)"

text \<open>What \<open>request\<close> resolves to: the raw response handle, or a decoded value.\<close>

datatype payload = RawResponse Response | Decoded json

definition maybeDecodeResponse :: "platform \<Rightarrow> Response \<Rightarrow> bool \<Rightarrow> error + payload" where
  "maybeDecodeResponse P response parseJson =
     (if \<not> parseJson then Inr (RawResponse response)
      else
        (case resp_text response of
           Inl e \<Rightarrow> Inl e
         | Inr txt \<Rightarrow>
             if txt = [] then Inr (Decoded JNull)
             else
               (case JSON_parse P txt of
                  Some v \<Rightarrow> Inr (Decoded v)
                | None \<Rightarrow> Inr (Decoded (JStr txt)))))"

text \<open>
  The body of \<open>raiseAPIError\<close> up to the \<open>throw\<close>: the four locals after the nested
  \<open>try\<close> blocks. Reading \<open>payload.message\<close> on a parsed \<open>null\<close> throws inside the
  inner \<open>try\<close>, so that case ends in the inner \<open>catch\<close> like a parse failure.
\<close>

definition read_error_body ::
  "platform \<Rightarrow> Response \<Rightarrow> json \<times> json option \<times> json option \<times> json option" where
  "read_error_body P response =
     (case resp_text response of
        Inl e \<Rightarrow> (JStr [], None, None, None)
      | Inr txt \<Rightarrow>
          if txt \<noteq> [] then
            (case JSON_parse P txt of
               None \<Rightarrow> (JStr txt, None, None, Some (JStr txt))
             | Some JNull \<Rightarrow> (JStr txt, None, None, Some (JStr txt))
             | Some pl \<Rightarrow>
                 (nullish (get_prop pl ''message'') (JStr txt),
                  get_prop pl ''error_code'',
                  get_prop pl ''detail'',
                  Some pl))
          else (JStr txt, None, None, None))"

text \<open>
  What \<open>raiseAPIError\<close> throws: the \<open>FoxnoseAPIError\<close> it constructs, or what the
  constructor throws.
\<close>

definition raiseAPIError :: "platform \<Rightarrow> Response \<Rightarrow> error" where
  "raiseAPIError P response =
     (let (message, errorCode, detail, body) = read_error_body P response;
          responseHeaders = fold (\<lambda>(key, v) h. set_property h key v)
                              (resp_headers response) Map.empty
      in case new_FoxnoseAPIError P
           \<lparr> opt_message = (if truthy message then message else JStr ''API request failed''),
             opt_statusCode = status response,
             opt_errorCode = errorCode,
             opt_detail = detail,
             opt_responseHeaders = responseHeaders,
             opt_responseBody = body \<rparr> of
           Inl e \<Rightarrow> e
         | Inr api_error \<Rightarrow> FoxnoseAPIError api_error)"

section \<open>The attempt loop\<close>

text \<open>
  The network is a parameter: what \<open>fetch\<close> does at each attempt, given the request
  sent. \<open>Rejected\<close> carries the message \<open>handleTransportError\<close> extracts from the
  thrown value (a timeout abort is such a rejection); \<open>Fulfilled\<close> is a received response.
\<close>

datatype fetch_outcome = Rejected string | Fulfilled Response

type_synonym network = "nat \<Rightarrow> BuiltRequest \<Rightarrow> fetch_outcome"

text \<open>What a run does, in order: network calls (with the attempt number) and sleeps.\<close>

datatype event = Fetch nat | Sleep real

datatype step = Return Response | Throw error | Continue real

definition sleep_events :: "real \<Rightarrow> event list" where
  "sleep_events delay = (if delay > 0 then [Sleep delay] else [])"

text \<open>One iteration of the \<open>for\<close> loop of \<open>sendWithRetries\<close>.\<close>

definition attempt_body ::
  "platform \<Rightarrow> FoxnoseConfig \<Rightarrow> AuthStrategy \<Rightarrow> RetryConfig \<Rightarrow> network
     \<Rightarrow> string \<Rightarrow> string \<Rightarrow> RequestOptions \<Rightarrow> nat \<Rightarrow> step \<times> event list" where
  "attempt_body P config auth retry net meth path options attempt =
     (case buildRequest P config auth meth path options of
        Inl e \<Rightarrow> (Throw e, [])
      | Inr req \<Rightarrow>
          (case net attempt req of
             Rejected err_message \<Rightarrow>
               (case handleTransportError P retry err_message meth attempt of
                  Inl e \<Rightarrow> (Throw e, [Fetch attempt])
                | Inr delay \<Rightarrow> (Continue delay, [Fetch attempt]))
           | Fulfilled response \<Rightarrow>
               if status response \<ge> 400 then
                 (if shouldRetry P retry meth (status response) \<and> attempt < attempts retry
                  then (Continue (computeDelay P retry attempt
                                    (Headers_get (resp_headers response) ''Retry-After'')),
                        [Fetch attempt])
                  else (Throw (raiseAPIError P response), [Fetch attempt]))
               else (Return response, [Fetch attempt])))"

function sendWithRetries_from ::
  "platform \<Rightarrow> FoxnoseConfig \<Rightarrow> AuthStrategy \<Rightarrow> RetryConfig \<Rightarrow> network
     \<Rightarrow> string \<Rightarrow> string \<Rightarrow> RequestOptions \<Rightarrow> nat \<Rightarrow> (error + Response) \<times> event list" where
  "sendWithRetries_from P config auth retry net meth path options attempt =
     (if attempt \<le> attempts retry then
        (case attempt_body P config auth retry net meth path options attempt of
           (Return response, evs) \<Rightarrow> (Inr response, evs)
         | (Throw e, evs) \<Rightarrow> (Inl e, evs)
         | (Continue delay, evs) \<Rightarrow>
             (case sendWithRetries_from P config auth retry net meth path options (attempt + 1) of
                (res, later) \<Rightarrow> (res, evs @ sleep_events delay @ later)))
      else (Inl (FoxnoseTransportError ''All retry attempts exhausted''), []))"
  by pat_completeness auto
termination
  by (relation "measure (\<lambda>(P, config, auth, retry, net, meth, path, options, attempt).
        Suc (attempts retry) - attempt)") auto

declare sendWithRetries_from.simps [simp del]

definition sendWithRetries ::
  "platform \<Rightarrow> FoxnoseConfig \<Rightarrow> AuthStrategy \<Rightarrow> RetryConfig \<Rightarrow> network
     \<Rightarrow> string \<Rightarrow> string \<Rightarrow> RequestOptions \<Rightarrow> (error + Response) \<times> event list" where
  "sendWithRetries P config auth retry net meth path options =
     sendWithRetries_from P config auth retry net meth path options 1"

text \<open>\<open>request\<close>: \<open>parseJson\<close> defaults to true.\<close>

definition request ::
  "platform \<Rightarrow> FoxnoseConfig \<Rightarrow> AuthStrategy \<Rightarrow> RetryConfig \<Rightarrow> network
     \<Rightarrow> string \<Rightarrow> string \<Rightarrow> RequestOptions \<Rightarrow> bool option \<Rightarrow> (error + payload) \<times> event list" where
  "request P config auth retry net meth path options parseJson_opt =
     (let parseJson = (case parseJson_opt of None \<Rightarrow> True | Some b \<Rightarrow> b)
      in case sendWithRetries P config auth retry net meth path options of
           (Inl e, evs) \<Rightarrow> (Inl e, evs)
         | (Inr response, evs) \<Rightarrow> (maybeDecodeResponse P response parseJson, evs))"

text \<open>The number of network calls of a run.\<close>

fun is_fetch :: "event \<Rightarrow> bool" where
  "is_fetch (Fetch n) = True"
| "is_fetch (Sleep d) = False"

definition network_calls :: "event list \<Rightarrow> nat" where
  "network_calls evs = length (filter is_fetch evs)"

text \<open>A network on which every attempt receives a response: the \<open>k\<close>-th is \<open>rs k\<close>.\<close>

definition respond_with :: "(nat \<Rightarrow> Response) \<Rightarrow> network" where
  "respond_with rs = (\<lambda>attempt req. Fulfilled (rs attempt))"

section \<open>Batch upsert\<close>





record BatchItemError =
  bie_index :: nat
  bie_external_id :: string
  bie_error :: error

text \<open>
  The locals of \<open>batchUpsertResources\<close> that its closures mutate, with two logs: the
  calls made to \<open>onProgress\<close> and the windows handed to \<open>Promise.all\<close> (the indices
  of each).
\<close>

record BatchState =
  succeeded :: "payload list"
  failed :: "BatchItemError list"
  completed :: nat
  progress :: "(nat \<times> nat) list"
  windows :: "nat list list"












section \<open>Headers the caller supplies\<close>


section \<open>Example inputs\<close>

text \<open>
  A platform for the worked examples below: each builtin is given on the arguments the
  examples pass, with the value the builtin has there. The general theorems hold for every
  platform.
\<close>

definition example_JSON_parse :: "string \<Rightarrow> json option" where
  \<open>example_JSON_parse = map_of
     [(''{"results":[]}'', JObj [(''results'', JArr [])]),
      (''{"message":"Not found","error_code":"not_found"}'',
         JObj [(''message'', JStr ''Not found''), (''error_code'', JStr ''not_found'')]),
      (''{"message":{"toString":0}}'', JObj [(''message'', JObj [(''toString'', JNum 0)])]),
      (''{"message":"Service unavailable"}'', JObj [(''message'', JStr ''Service unavailable'')]),
      (''null'', JNull)]\<close>

definition example_JSON_stringify :: "json \<Rightarrow> string" where
  \<open>example_JSON_stringify j =
     (if j = JNull then ''null''
      else if j = JObj [(''name'', JStr ''x'')] then ''{"name":"x"}''
      else [])\<close>

definition example_parseFloat :: "string \<Rightarrow> real option" where
  "example_parseFloat = map_of [(''2'', 2), (''0.25'', 0.25)]"

definition example_URLSearchParams_toString :: "(string \<times> string) list \<Rightarrow> string" where
  "example_URLSearchParams_toString ps = join_with ''&'' (map (\<lambda>(k, v). k @ ''='' @ v) ps)"

text \<open>
  The examples pass ASCII strings only, which \<open>toUpperCase\<close> upper-cases letter by
  letter.
\<close>

definition example_platform :: platform where
  "example_platform =
     \<lparr> toUpperCase = upper_ascii,
       JSON_parse = example_JSON_parse,
       JSON_stringify = example_JSON_stringify,
       parseFloat = example_parseFloat,
       Number_toString = (\<lambda>n. []),
       URLSearchParams_toString = example_URLSearchParams_toString \<rparr>"

definition example_config :: FoxnoseConfig where
  "example_config =
     \<lparr> baseUrl = ''https://api.example.com'', timeout = 30000,
       defaultHeaders = None, userAgent = ''foxnose-sdk-js/0.1.1'' \<rparr>"

definition no_options :: RequestOptions where
  "no_options = \<lparr> ro_params = None, ro_jsonBody = None, ro_content = None, ro_headers = None \<rparr>"

definition example_response :: "nat \<Rightarrow> (string \<times> string) list \<Rightarrow> string \<Rightarrow> Response" where
  "example_response st hs txt = \<lparr> status = st, resp_headers = hs, resp_text = Inr txt \<rparr>"

definition responses_503_then_200 :: "nat \<Rightarrow> Response" where
  \<open>responses_503_then_200 k =
     (if k = 1 then example_response 503 [] []
      else example_response 200 [] ''{"results":[]}'')\<close>

definition lower_get_policy :: RetryConfig where
  "lower_get_policy =
     \<lparr> attempts = 3, backoffFactor = 0.5, statusCodes = [503], methods = [''get''] \<rparr>"

definition unreadable_response :: Response where
  "unreadable_response =
     \<lparr> status = 200, resp_headers = [], resp_text = Inl (JSError ''terminated'') \<rparr>"

definition not_found_response :: Response where
  \<open>not_found_response =
     example_response 404 [(''content-type'', ''application/json'')]
       ''{"message":"Not found","error_code":"not_found"}''\<close>

definition null_body_response :: Response where
  "null_body_response = example_response 500 [] ''null''"







definition example_request_data :: RequestData where
  "example_request_data =
     \<lparr> rd_method = ''GET'', rd_url = ''https://api.example.com/v1/test'',
       rd_path = ''/v1/test'', rd_body = Some [] \<rparr>"

text \<open>
  A Node platform for the examples: the URL of the example request, the SHA-256 digest of
  the empty body, and stand-ins for the signer and the base64 rendering: the signature of
  a text is the text itself.
\<close>

definition example_node :: node_platform where
  "example_node =
     \<lparr> URL_parse = map_of [(''https://api.example.com/v1/test'', (''/v1/test'', []))],
       sha256_hex = (\<lambda>b. if b = []
          then ''e3b0c44298fc1c149afbf4c8996fb92427ae41e4649b934ca495991b7852b855'' else []),
       createSign_sign = (\<lambda>draw key text. Inr text),
       toString_base64 = (\<lambda>b. b) \<rparr>"

definition other_request_data :: RequestData where
  "other_request_data =
     \<lparr> rd_method = ''GET'', rd_url = ''not-a-url'', rd_path = ''/v1/other'', rd_body = Some [] \<rparr>"

text \<open>15 June 2024 at 12:00:00.000 UTC, half a second later, and a minute later.\<close>

definition noon :: JSDate where
  "noon = Time 1718452800000"

definition noon_and_a_half_second :: JSDate where
  "noon_and_a_half_second = Time 1718452800500"

definition a_minute_past_noon :: JSDate where
  "a_minute_past_noon = Time 1718452860000"

text \<open>
  A signer that, like an ECDSA signer, does not return the same signature twice: the
  signature holds what the call drew.
\<close>

definition drawing_node :: node_platform where
  "drawing_node = example_node\<lparr> createSign_sign := (\<lambda>draw key text. Inr (show_nat draw @ '':'' @ text)) \<rparr>"

definition unavailable_response :: Response where
  \<open>unavailable_response = example_response 503 [] ''{"message":"Service unavailable"}''\<close>

definition proto_header_response :: Response where
  "proto_header_response =
     example_response 500 [(''__proto__'', ''x''), (''x-request-id'', ''r1'')] []"

definition toString_body_response :: Response where
  \<open>toString_body_response = example_response 500 [] ''{"message":{"toString":0}}''\<close>

definition example_secure_auth :: "JSDate \<Rightarrow> SecureKeyAuth" where
  "example_secure_auth now =
     \<lparr> sec_publicKey = ''pubkey'', sec_privateKeyPem = ''pem'', sec_clock = (\<lambda>u. now) \<rparr>"

definition retry_after_response :: "string \<Rightarrow> Response" where
  "retry_after_response v = example_response 503 [(''retry-after'', v)] []"

definition get_only_policy :: RetryConfig where
  "get_only_policy =
     \<lparr> attempts = 3, backoffFactor = 0.5, statusCodes = [503], methods = [''GET''] \<rparr>"

section \<open>Properties of the attempt loop\<close>

lemma attempt_body_events:
  "snd (attempt_body P config auth retry net meth path options a) = [] \<or>
   snd (attempt_body P config auth retry net meth path options a) = [Fetch a]"
  by (auto simp: attempt_body_def split: sum.splits fetch_outcome.splits)

lemma network_calls_append [simp]:
  "network_calls (xs @ ys) = network_calls xs + network_calls ys"
  by (simp add: network_calls_def)

lemma network_calls_sleep [simp]: "network_calls (sleep_events d) = 0"
  by (simp add: network_calls_def sleep_events_def)



lemma request_events:
  "snd (request P config auth retry net meth path options pj)
     = snd (sendWithRetries_from P config auth retry net meth path options 1)"
  by (simp add: request_def sendWithRetries_def split: prod.splits sum.splits)


lemma first_success_from:
  assumes br: "\<not> isl (buildRequest P config auth meth path options)"
    and elig: "toUpperCase P meth \<in> set (methods retry)"
    and iN: "i \<le> attempts retry"
    and succ: "status (rs i) < 400"
  shows "a \<le> i \<Longrightarrow>
     (\<forall>j. a \<le> j \<and> j < i \<longrightarrow> 400 \<le> status (rs j) \<and> status (rs j) \<in> set (statusCodes retry)) \<Longrightarrow>
     fst (sendWithRetries_from P config auth retry (respond_with rs) meth path options a) = Inr (rs i) \<and>
     filter is_fetch (snd (sendWithRetries_from P config auth retry (respond_with rs) meth path options a))
       = map Fetch [a..<Suc i]"
proof (induction "i - a" arbitrary: a)
  case 0
  then have ai: "a = i" by simp
  obtain req where req: "buildRequest P config auth meth path options = Inr req"
    using br by (cases "buildRequest P config auth meth path options") auto
  have "attempt_body P config auth retry (respond_with rs) meth path options i = (Return (rs i), [Fetch i])"
    using req succ by (simp add: attempt_body_def respond_with_def)
  with iN ai show ?case by (simp add: sendWithRetries_from.simps [of _ _ _ _ _ _ _ _ i])
next
  case (Suc n)
  then have lt: "a < i" by simp
  obtain req where req: "buildRequest P config auth meth path options = Inr req"
    using br by (cases "buildRequest P config auth meth path options") auto
  with Suc.prems lt have st: "400 \<le> status (rs a)" "status (rs a) \<in> set (statusCodes retry)" by auto
  from lt iN have aN: "a < attempts retry" "a \<le> attempts retry" by auto
  let ?d = "computeDelay P retry a (Headers_get (resp_headers (rs a)) ''Retry-After'')"
  have ab: "attempt_body P config auth retry (respond_with rs) meth path options a = (Continue ?d, [Fetch a])"
    using req st elig aN by (simp add: attempt_body_def respond_with_def shouldRetry_def)
  obtain res later where rec:
    "sendWithRetries_from P config auth retry (respond_with rs) meth path options (Suc a) = (res, later)"
    by (cases "sendWithRetries_from P config auth retry (respond_with rs) meth path options (Suc a)")
  have n: "n = i - Suc a" using Suc.hyps(2) by simp
  have "Suc a \<le> i" using lt by simp
  moreover have "\<forall>j. Suc a \<le> j \<and> j < i \<longrightarrow> 400 \<le> status (rs j) \<and> status (rs j) \<in> set (statusCodes retry)"
    using Suc.prems(2) by auto
  ultimately have IH: "res = Inr (rs i) \<and> filter is_fetch later = map Fetch [Suc a..<Suc i]"
    using Suc.hyps(1) [OF n] rec by simp
  have "[a..<Suc i] = a # [Suc a..<Suc i]" using lt by (simp add: upt_conv_Cons)
  with aN ab rec IH show ?case
    by (simp add: sleep_events_def sendWithRetries_from.simps [of _ _ _ _ _ _ _ _ a])
qed




lemma example_upper: "toUpperCase example_platform s = upper_ascii s"
  by (simp add: example_platform_def)

lemma upper_GET: "toUpperCase example_platform ''GET'' = ''GET''"
proof -
  have "upper_ascii ''GET'' = ''GET''" by code_simp
  then show ?thesis by (simp add: example_upper)
qed

lemma upper_get: "toUpperCase example_platform ''get'' = ''GET''"
proof -
  have "upper_ascii ''get'' = ''GET''" by code_simp
  then show ?thesis by (simp add: example_upper)
qed

lemma upper_POST: "toUpperCase example_platform ''POST'' = ''POST''"
proof -
  have "upper_ascii ''POST'' = ''POST''" by code_simp
  then show ?thesis by (simp add: example_upper)
qed

lemma show_nat_503: "show_nat 503 = ''503''" by code_simp
lemma show_nat_404: "show_nat 404 = ''404''" by code_simp
lemma show_nat_500: "show_nat 500 = ''500''" by code_simp

lemma example_buildRequest_ok:
  "\<not> isl (buildRequest example_platform example_config AnonymousAuth_buildHeaders m p no_options)"
  by (simp add: buildRequest_def AnonymousAuth_buildHeaders_def Let_def split: option.splits prod.splits)




section \<open>Errors raised for a response\<close>

lemma js_String_throws:
  "js_String num v = Inl e \<Longrightarrow> e = TypeError"
  "js_join num vs = Inl e \<Longrightarrow> e = TypeError"
  by (induction num v and num vs arbitrary: e and e rule: js_String_js_join.induct)
    (auto split: sum.splits if_splits)

lemma js_String_primitive: "primitive v \<Longrightarrow> \<exists>s. js_String num v = Inr s"
  by (cases v) auto

lemma error_code_suffix_throws: "error_code_suffix P ec = Inl e \<Longrightarrow> e = TypeError"
  by (auto simp: error_code_suffix_def split: option.splits if_splits sum.splits
      dest: js_String_throws(1))

lemma new_FoxnoseAPIError_cases:
  "new_FoxnoseAPIError P opts = Inl TypeError \<or>
   (\<exists>e. new_FoxnoseAPIError P opts = Inr e \<and> statusCode e = opt_statusCode opts)"
  by (auto simp: new_FoxnoseAPIError_def split: sum.splits
      dest: js_String_throws(1) error_code_suffix_throws)

lemma new_FoxnoseAPIError_throws:
  assumes "isl (js_String (Number_toString P) (opt_message opts)) \<or>
           isl (error_code_suffix P (opt_errorCode opts))"
  shows "new_FoxnoseAPIError P opts = Inl TypeError"
proof -
  from assms have "isl (new_FoxnoseAPIError P opts)"
    by (auto simp: new_FoxnoseAPIError_def isl_def split: sum.splits)
  with new_FoxnoseAPIError_cases [of P opts] show ?thesis by auto
qed

lemma raiseAPIError_cases:
  "raiseAPIError P r = TypeError \<or>
   (\<exists>e. raiseAPIError P r = FoxnoseAPIError e \<and> statusCode e = status r)"
proof -
  obtain m ec dt b where rb: "read_error_body P r = (m, ec, dt, b)"
    by (cases "read_error_body P r") auto
  let ?opts = "\<lparr> opt_message = (if truthy m then m else JStr ''API request failed''),
             opt_statusCode = status r, opt_errorCode = ec, opt_detail = dt,
             opt_responseHeaders = fold (\<lambda>(key, v) h. set_property h key v)
                                     (resp_headers r) Map.empty,
             opt_responseBody = b \<rparr>"
  from new_FoxnoseAPIError_cases [of P ?opts] show ?thesis
    by (auto simp: raiseAPIError_def rb)
qed

lemma read_error_body_plain:
  assumes "\<forall>t pl. resp_text r = Inr t \<and> JSON_parse P t = Some pl \<longrightarrow>
             plain_field pl ''message'' \<and> plain_field pl ''error_code''"
    and "read_error_body P r = (m, ec, dt, b)"
  shows "primitive m \<and> (case ec of None \<Rightarrow> True | Some c \<Rightarrow> primitive c)"
proof (cases "resp_text r")
  case (Inl x)
  with assms(2) show ?thesis by (auto simp: read_error_body_def)
next
  case (Inr bt)
  show ?thesis
  proof (cases "JSON_parse P bt")
    case None
    with Inr assms(2) show ?thesis by (auto simp: read_error_body_def split: if_splits)
  next
    case (Some pl)
    with Inr assms(1) have pf: "plain_field pl ''message''" "plain_field pl ''error_code''"
      by auto
    have "primitive (nullish (get_prop pl ''message'') (JStr bt))"
      using pf(1) by (cases "get_prop pl ''message''"; cases "the (get_prop pl ''message'')")
        (auto simp: plain_field_def)
    with Inr Some assms(2) pf(2) show ?thesis
      by (cases pl) (auto simp: read_error_body_def plain_field_def split: if_splits option.splits)
  qed
qed

lemma raiseAPIError_plain:
  assumes "\<forall>t pl. resp_text r = Inr t \<and> JSON_parse P t = Some pl \<longrightarrow>
             plain_field pl ''message'' \<and> plain_field pl ''error_code''"
  shows "\<exists>e. raiseAPIError P r = FoxnoseAPIError e \<and> statusCode e = status r"
proof -
  obtain m ec dt b where rb: "read_error_body P r = (m, ec, dt, b)"
    by (cases "read_error_body P r") auto
  from read_error_body_plain [OF assms rb]
  have pm: "primitive m" and pc: "case ec of None \<Rightarrow> True | Some c \<Rightarrow> primitive c" by auto
  have "primitive (if truthy m then m else JStr ''API request failed'')" using pm by simp
  from js_String_primitive [OF this, of "Number_toString P"] obtain ms where
    ms: "js_String (Number_toString P) (if truthy m then m else JStr ''API request failed'') = Inr ms"
    by blast
  have "\<exists>cs. error_code_suffix P ec = Inr cs"
  proof (cases ec)
    case None
    then show ?thesis by (simp add: error_code_suffix_def)
  next
    case (Some c)
    with pc js_String_primitive [of c "Number_toString P"] show ?thesis
      by (auto simp: error_code_suffix_def)
  qed
  then obtain cs where cs: "error_code_suffix P ec = Inr cs" by blast
  show ?thesis
    by (simp add: raiseAPIError_def rb new_FoxnoseAPIError_def ms cs)
qed

text \<open>
  Claim C2, as amended. For a method whose upper-cased form is not an entry of the
  policy's method list, a first response with any status of 400 or more, also one among the
  policy's retryable status codes, ends \<open>request\<close> after exactly one network call with what
  \<open>raiseAPIError\<close> throws for that response: an API error carrying the status, or, when
  the payload's \<open>message\<close> or \<open>error_code\<close> is an object that cannot be rendered as
  a string, a \<open>TypeError\<close>. It is an API error whenever both fields are absent or not
  objects.
\<close>

theorem ineligible_method_raises_at_once:
  assumes "toUpperCase P meth \<notin> set (methods retry)"
    and "1 \<le> attempts retry"
    and "buildRequest P config auth meth path options = Inr req"
    and "net 1 req = Fulfilled response"
    and "400 \<le> status response"
  shows "request P config auth retry net meth path options pj
           = (Inl (raiseAPIError P response), [Fetch 1]) \<and>
         (raiseAPIError P response = TypeError \<or>
          (\<exists>e. raiseAPIError P response = FoxnoseAPIError e \<and> statusCode e = status response)) \<and>
         ((\<forall>t pl. resp_text response = Inr t \<and> JSON_parse P t = Some pl \<longrightarrow>
              plain_field pl ''message'' \<and> plain_field pl ''error_code'') \<longrightarrow>
            (\<exists>e. raiseAPIError P response = FoxnoseAPIError e \<and> statusCode e = status response))"
proof -
  have ab: "attempt_body P config auth retry net meth path options 1
      = (Throw (raiseAPIError P response), [Fetch 1])"
    using assms by (simp add: attempt_body_def shouldRetry_def)
  have "sendWithRetries_from P config auth retry net meth path options 1
      = (Inl (raiseAPIError P response), [Fetch 1])"
    using assms(2) ab by (subst sendWithRetries_from.simps) simp
  then have "request P config auth retry net meth path options pj
           = (Inl (raiseAPIError P response), [Fetch 1])"
    by (simp add: request_def sendWithRetries_def)
  with raiseAPIError_cases [of P response] raiseAPIError_plain [of response P]
  show ?thesis by blast
qed

lemma example_parse_unavailable:
  \<open>JSON_parse example_platform ''{"message":"Service unavailable"}''
     = Some (JObj [(''message'', JStr ''Service unavailable'')])\<close>
  by (simp add: example_platform_def example_JSON_parse_def)

lemma unavailable_error:
  "raiseAPIError example_platform unavailable_response
     = FoxnoseAPIError
          \<lparr> ae_message = ''Service unavailable (status=503)'', statusCode = 503,
            errorCode = None, detail = None, responseHeaders = Map.empty,
            responseBody = Some (JObj [(''message'', JStr ''Service unavailable'')]) \<rparr>"
  by (simp add: raiseAPIError_def read_error_body_def new_FoxnoseAPIError_def
      error_code_suffix_def unavailable_response_def example_response_def
      example_parse_unavailable show_nat_503)

theorem ineligible_method_raises_at_once_witness:
  "503 \<in> set (statusCodes DEFAULT_RETRY_CONFIG) \<and>
   request example_platform example_config AnonymousAuth_buildHeaders DEFAULT_RETRY_CONFIG
       (respond_with (\<lambda>k. unavailable_response)) ''POST'' ''/items'' no_options None
     = (Inl (FoxnoseAPIError
          \<lparr> ae_message = ''Service unavailable (status=503)'', statusCode = 503,
            errorCode = None, detail = None, responseHeaders = Map.empty,
            responseBody = Some (JObj [(''message'', JStr ''Service unavailable'')]) \<rparr>),
        [Fetch 1]) \<and>
   (\<exists>e. raiseAPIError example_platform unavailable_response = FoxnoseAPIError e \<and>
        statusCode e = 503)"
proof -
  let ?b = "buildRequest example_platform example_config AnonymousAuth_buildHeaders ''POST'' ''/items'' no_options"
  let ?tx = \<open>''{"message":"Service unavailable"}''\<close>
  have a1: "toUpperCase example_platform ''POST'' \<notin> set (methods DEFAULT_RETRY_CONFIG)"
    by (simp add: DEFAULT_RETRY_CONFIG_def upper_POST)
  have a2: "1 \<le> attempts DEFAULT_RETRY_CONFIG" by (simp add: DEFAULT_RETRY_CONFIG_def)
  obtain req where a3: "?b = Inr req"
    using example_buildRequest_ok [of "''POST''" "''/items''"] by (cases ?b) auto
  have a4: "respond_with (\<lambda>k. unavailable_response) 1 req = Fulfilled unavailable_response"
    by (simp add: respond_with_def)
  have st: "status unavailable_response = 503"
    by (simp add: unavailable_response_def example_response_def)
  have a5: "400 \<le> status unavailable_response" by (simp add: st)
  have tx: "resp_text unavailable_response = Inr ?tx"
    by (simp add: unavailable_response_def example_response_def)
  have plain: "\<forall>t pl. resp_text unavailable_response = Inr t \<and>
      JSON_parse example_platform t = Some pl \<longrightarrow>
      plain_field pl ''message'' \<and> plain_field pl ''error_code''"
    by (auto simp: tx example_parse_unavailable plain_field_def)
  note inst = ineligible_method_raises_at_once
         [of example_platform "''POST''" DEFAULT_RETRY_CONFIG example_config
             AnonymousAuth_buildHeaders "''/items''" no_options req
             "respond_with (\<lambda>k. unavailable_response)" unavailable_response None,
          OF a1 a2 a3 a4 a5]
  from inst [THEN conjunct1]
  have "request example_platform example_config AnonymousAuth_buildHeaders DEFAULT_RETRY_CONFIG
       (respond_with (\<lambda>k. unavailable_response)) ''POST'' ''/items'' no_options None
     = (Inl (raiseAPIError example_platform unavailable_response), [Fetch 1])" .
  then have run: "request example_platform example_config AnonymousAuth_buildHeaders
       DEFAULT_RETRY_CONFIG (respond_with (\<lambda>k. unavailable_response)) ''POST'' ''/items''
       no_options None
     = (Inl (FoxnoseAPIError
          \<lparr> ae_message = ''Service unavailable (status=503)'', statusCode = 503,
            errorCode = None, detail = None, responseHeaders = Map.empty,
            responseBody = Some (JObj [(''message'', JStr ''Service unavailable'')]) \<rparr>),
        [Fetch 1])"
    by (simp only: unavailable_error)
  from inst [THEN conjunct2, THEN conjunct2, THEN mp, OF plain]
  have api: "\<exists>e. raiseAPIError example_platform unavailable_response = FoxnoseAPIError e \<and>
        statusCode e = 503"
    by (simp only: st)
  have "503 \<in> set (statusCodes DEFAULT_RETRY_CONFIG)"
    by (simp add: DEFAULT_RETRY_CONFIG_def)
  with run api show ?thesis by blast
qed

lemma example_parse_toString:
  \<open>JSON_parse example_platform ''{"message":{"toString":0}}''
     = Some (JObj [(''message'', JObj [(''toString'', JNum 0)])])\<close>
  by (simp add: example_platform_def example_JSON_parse_def)

lemma toString_body_error: "raiseAPIError example_platform toString_body_response = TypeError"
  by (simp add: raiseAPIError_def read_error_body_def new_FoxnoseAPIError_def
      error_code_suffix_def toString_body_response_def example_response_def
      example_parse_toString)

theorem unrenderable_message_counterexample:
  \<open>toUpperCase example_platform ''POST'' \<notin> set (methods DEFAULT_RETRY_CONFIG) \<and>
   ''POST'' \<notin> set (methods DEFAULT_RETRY_CONFIG) \<and>
   400 \<le> status toString_body_response \<and>
   resp_text toString_body_response = Inr ''{"message":{"toString":0}}'' \<and>
   request example_platform example_config AnonymousAuth_buildHeaders DEFAULT_RETRY_CONFIG
       (respond_with (\<lambda>k. toString_body_response)) ''POST'' ''/items'' no_options None
     = (Inl TypeError, [Fetch 1]) \<and>
   ''get'' \<notin> set (methods DEFAULT_RETRY_CONFIG) \<and>
   400 \<le> status (responses_503_then_200 1) \<and>
   fst (request example_platform example_config AnonymousAuth_buildHeaders DEFAULT_RETRY_CONFIG
          (respond_with responses_503_then_200) ''get'' ''/items'' no_options None)
     = Inr (Decoded (JObj [(''results'', JArr [])])) \<and>
   filter is_fetch (snd (request example_platform example_config AnonymousAuth_buildHeaders
          DEFAULT_RETRY_CONFIG (respond_with responses_503_then_200) ''get'' ''/items''
          no_options None))
     = [Fetch 1, Fetch 2]\<close>
proof -
  let ?lower = "sendWithRetries_from example_platform example_config AnonymousAuth_buildHeaders
          DEFAULT_RETRY_CONFIG (respond_with responses_503_then_200) ''get'' ''/items''
          no_options 1"
  have el: "toUpperCase example_platform ''get'' \<in> set (methods DEFAULT_RETRY_CONFIG)"
    by (simp add: upper_get DEFAULT_RETRY_CONFIG_def)
  have "fst ?lower = Inr (responses_503_then_200 2) \<and>
      filter is_fetch (snd ?lower) = map Fetch [1..<Suc 2]"
    by (rule first_success_from [OF example_buildRequest_ok el])
      (auto simp: DEFAULT_RETRY_CONFIG_def responses_503_then_200_def example_response_def)
  moreover have "[1..<Suc 2] = [1, 2]" by (simp add: upt_conv_Cons)
  moreover have \<open>maybeDecodeResponse example_platform (responses_503_then_200 2) True
      = Inr (Decoded (JObj [(''results'', JArr [])]))\<close>
    by (simp add: maybeDecodeResponse_def responses_503_then_200_def example_response_def
        example_platform_def example_JSON_parse_def)
  ultimately have low: \<open>fst (request example_platform example_config AnonymousAuth_buildHeaders
          DEFAULT_RETRY_CONFIG (respond_with responses_503_then_200) ''get'' ''/items''
          no_options None)
     = Inr (Decoded (JObj [(''results'', JArr [])])) \<and>
   filter is_fetch (snd (request example_platform example_config AnonymousAuth_buildHeaders
          DEFAULT_RETRY_CONFIG (respond_with responses_503_then_200) ''get'' ''/items''
          no_options None))
     = [Fetch 1, Fetch 2]\<close>
    by (cases ?lower) (simp add: request_def sendWithRetries_def)
  have low': "''get'' \<notin> set (methods DEFAULT_RETRY_CONFIG) \<and>
      400 \<le> status (responses_503_then_200 1)"
    by (simp add: DEFAULT_RETRY_CONFIG_def responses_503_then_200_def example_response_def)
  let ?b = "buildRequest example_platform example_config AnonymousAuth_buildHeaders ''POST'' ''/items'' no_options"
  have a1: "toUpperCase example_platform ''POST'' \<notin> set (methods DEFAULT_RETRY_CONFIG)"
    by (simp add: DEFAULT_RETRY_CONFIG_def upper_POST)
  have a1': "''POST'' \<notin> set (methods DEFAULT_RETRY_CONFIG)"
    by (simp add: DEFAULT_RETRY_CONFIG_def)
  have a2: "1 \<le> attempts DEFAULT_RETRY_CONFIG" by (simp add: DEFAULT_RETRY_CONFIG_def)
  obtain req where a3: "?b = Inr req"
    using example_buildRequest_ok [of "''POST''" "''/items''"] by (cases ?b) auto
  have a5: "400 \<le> status toString_body_response"
    by (simp add: toString_body_response_def example_response_def)
  have ab: "attempt_body example_platform example_config AnonymousAuth_buildHeaders
      DEFAULT_RETRY_CONFIG (respond_with (\<lambda>k. toString_body_response)) ''POST'' ''/items''
      no_options 1 = (Throw TypeError, [Fetch 1])"
    using a3 a1 a5
    by (simp add: attempt_body_def respond_with_def shouldRetry_def toString_body_error)
  have "sendWithRetries_from example_platform example_config AnonymousAuth_buildHeaders
      DEFAULT_RETRY_CONFIG (respond_with (\<lambda>k. toString_body_response)) ''POST'' ''/items''
      no_options 1 = (Inl TypeError, [Fetch 1])"
    using a2 ab by (subst sendWithRetries_from.simps) simp
  then have run: "request example_platform example_config AnonymousAuth_buildHeaders
       DEFAULT_RETRY_CONFIG (respond_with (\<lambda>k. toString_body_response)) ''POST'' ''/items''
       no_options None = (Inl TypeError, [Fetch 1])"
    by (simp add: request_def sendWithRetries_def)
  have tx: \<open>resp_text toString_body_response = Inr ''{"message":{"toString":0}}''\<close>
    by (simp add: toString_body_response_def example_response_def)
  from a1 a1' a5 tx run low low' show ?thesis by simp
qed

section \<open>Retry delays\<close>

text \<open>
  Claim C3, as amended. When attempt \<open>a \<ge> 1\<close> receives a response and is retried, the delay
  before the next attempt is: \<open>v * 1000\<close> when the \<open>Retry-After\<close> header has a non-empty
  value that \<open>parseFloat\<close> reads as \<open>v\<close>; zero when the value is non-empty and
  \<open>parseFloat\<close> gives NaN; and \<open>backoffFactor * 2 ^ (a - 1) * 1000\<close> when the header is
  absent or its value is empty.
\<close>

theorem retry_delay:
  assumes "1 \<le> a"
    and "buildRequest P config auth meth path options = Inr req"
    and "net a req = Fulfilled r"
    and "attempt_body P config auth retry net meth path options a = (Continue d, evs)"
  shows "(case Headers_get (resp_headers r) ''Retry-After'' of
            None \<Rightarrow> d = backoffFactor retry * 2 ^ (a - 1) * 1000
          | Some s \<Rightarrow>
              if s = [] then d = backoffFactor retry * 2 ^ (a - 1) * 1000
              else (case parseFloat P s of Some v \<Rightarrow> d = v * 1000 | None \<Rightarrow> d = 0))"
proof -
  have e: "nat (max (int a - 1) 0) = a - 1" using assms(1) by simp
  have "d = computeDelay P retry a (Headers_get (resp_headers r) ''Retry-After'')"
    using assms(2-4) by (simp add: attempt_body_def split: if_splits)
  then show ?thesis
    by (simp add: computeDelay_def e split: option.splits)
qed

lemma retry_after_lookup: "Headers_get [(''retry-after'', v)] ''Retry-After'' = Some v"
proof -
  have "byte_lowercase ''Retry-After'' = ''retry-after''" by code_simp
  moreover have "byte_lowercase ''retry-after'' = ''retry-after''" by code_simp
  ultimately show ?thesis by (simp add: Headers_get_def)
qed

theorem retry_delay_witness:
  "attempt_body example_platform example_config AnonymousAuth_buildHeaders get_only_policy
       (respond_with (\<lambda>k. retry_after_response ''2'')) ''GET'' ''/items'' no_options 1
     = (Continue 2000, [Fetch 1])"
proof -
  let ?b = "buildRequest example_platform example_config AnonymousAuth_buildHeaders ''GET'' ''/items'' no_options"
  let ?r = "retry_after_response ''2''"
  let ?d = "computeDelay example_platform get_only_policy 1 (Headers_get (resp_headers ?r) ''Retry-After'')"
  obtain req where a2: "?b = Inr req"
    using example_buildRequest_ok [of "''GET''" "''/items''"] by (cases ?b) auto
  have a3: "respond_with (\<lambda>k. ?r) 1 req = Fulfilled ?r"
    by (simp add: respond_with_def)
  have ab: "attempt_body example_platform example_config AnonymousAuth_buildHeaders get_only_policy
       (respond_with (\<lambda>k. ?r)) ''GET'' ''/items'' no_options 1 = (Continue ?d, [Fetch 1])"
    using a2 by (simp add: attempt_body_def respond_with_def shouldRetry_def upper_GET
        get_only_policy_def retry_after_response_def example_response_def)
  have hd: "Headers_get (resp_headers ?r) ''Retry-After'' = Some ''2''"
    by (simp add: retry_after_response_def example_response_def retry_after_lookup)
  have pf: "parseFloat example_platform ''2'' = Some 2"
    by (simp add: example_platform_def example_parseFloat_def)
  from retry_delay [of 1 example_platform example_config AnonymousAuth_buildHeaders "''GET''"
      "''/items''" no_options req "respond_with (\<lambda>k. ?r)" ?r get_only_policy ?d "[Fetch 1]",
      OF _ a2 a3 ab]
  have "?d = 2000" by (simp add: hd pf)
  with ab show ?thesis by simp
qed

theorem retry_after_empty_counterexample:
  "Headers_get (resp_headers (retry_after_response [])) ''Retry-After'' = Some [] \<and>
   parseFloat example_platform [] = None \<and>
   computeDelay example_platform DEFAULT_RETRY_CONFIG 1
       (Headers_get (resp_headers (retry_after_response [])) ''Retry-After'') = 500 \<and>
   computeDelay example_platform DEFAULT_RETRY_CONFIG 1
       (Headers_get (resp_headers (retry_after_response [])) ''Retry-After'') \<noteq> 0"
  by (simp add: retry_after_response_def example_response_def retry_after_lookup
      example_platform_def example_parseFloat_def computeDelay_def DEFAULT_RETRY_CONFIG_def)

section \<open>Letter case of methods\<close>

lemma same_letter_upper: "same_letter c d \<Longrightarrow> upper_char c = upper_char d"
  unfolding same_letter_def upper_char_def is_lower_ascii_def is_upper_ascii_def
  by auto

lemma differ_only_in_case_upper:
  "differ_only_in_case s t \<Longrightarrow> upper_ascii s = upper_ascii t"
  unfolding differ_only_in_case_def upper_ascii_def
  by (induction s t rule: list_all2_induct) (auto dest: same_letter_upper)

text \<open>
  Claim C5, as amended. For the decision on an HTTP error and for the one on a network
  failure, a method counts as retry-eligible exactly when its upper-cased form is an entry
  of the policy's method list. So two methods with the same upper-cased form are treated
  alike; in particular two methods made of ASCII characters that differ only in letter
  case, on a platform whose \<open>toUpperCase\<close> upper-cases ASCII strings letter by letter, as
  JavaScript's does. Eligibility does depend on the letter case of the policy's entries: an
  entry counts only when it equals the upper-cased method.
\<close>

theorem eligibility_ignores_method_case:
  "shouldRetry P retry m s
     = (toUpperCase P m \<in> set (methods retry) \<and> s \<in> set (statusCodes retry)) \<and>
   isl (handleTransportError P retry err m a)
     = (\<not> (toUpperCase P m \<in> set (methods retry) \<and> a < attempts retry)) \<and>
   (toUpperCase P m' = toUpperCase P m \<longrightarrow>
      shouldRetry P retry m' s = shouldRetry P retry m s \<and>
      handleTransportError P retry err m' a = handleTransportError P retry err m a) \<and>
   ((\<forall>x. ascii_only x \<longrightarrow> toUpperCase P x = upper_ascii x) \<and>
    ascii_only m \<and> ascii_only m' \<and> differ_only_in_case m m' \<longrightarrow>
      shouldRetry P retry m' s = shouldRetry P retry m s \<and>
      handleTransportError P retry err m' a = handleTransportError P retry err m a)"
proof (intro conjI impI)
  show "shouldRetry P retry m s
     = (toUpperCase P m \<in> set (methods retry) \<and> s \<in> set (statusCodes retry))"
    by (simp add: shouldRetry_def)
  show "isl (handleTransportError P retry err m a)
     = (\<not> (toUpperCase P m \<in> set (methods retry) \<and> a < attempts retry))"
    by (simp add: handleTransportError_def)
next
  assume "toUpperCase P m' = toUpperCase P m"
  then show "shouldRetry P retry m' s = shouldRetry P retry m s"
    and "handleTransportError P retry err m' a = handleTransportError P retry err m a"
    by (simp_all add: shouldRetry_def handleTransportError_def)
next
  assume h: "(\<forall>x. ascii_only x \<longrightarrow> toUpperCase P x = upper_ascii x) \<and>
    ascii_only m \<and> ascii_only m' \<and> differ_only_in_case m m'"
  then have "toUpperCase P m' = upper_ascii m'" "toUpperCase P m = upper_ascii m" by auto
  moreover have "upper_ascii m = upper_ascii m'"
    using h by (auto dest: differ_only_in_case_upper)
  ultimately have "toUpperCase P m' = toUpperCase P m" by simp
  then show "shouldRetry P retry m' s = shouldRetry P retry m s"
    and "handleTransportError P retry err m' a = handleTransportError P retry err m a"
    by (simp_all add: shouldRetry_def handleTransportError_def)
qed

lemma get_GET_differ_in_case:
  "ascii_only ''GET'' \<and> ascii_only ''get'' \<and> differ_only_in_case ''GET'' ''get''"
  by code_simp

theorem eligibility_ignores_method_case_witness:
  "differ_only_in_case ''GET'' ''get'' \<and>
   shouldRetry example_platform DEFAULT_RETRY_CONFIG ''get'' 503
     = shouldRetry example_platform DEFAULT_RETRY_CONFIG ''GET'' 503 \<and>
   shouldRetry example_platform DEFAULT_RETRY_CONFIG ''get'' 503 \<and>
   handleTransportError example_platform DEFAULT_RETRY_CONFIG ''fetch failed'' ''get'' 1
     = handleTransportError example_platform DEFAULT_RETRY_CONFIG ''fetch failed'' ''GET'' 1"
proof -
  note inst = eligibility_ignores_method_case
      [of example_platform DEFAULT_RETRY_CONFIG "''GET''" 503 "''fetch failed''" 1 "''get''"]
  have law: "\<forall>x. ascii_only x \<longrightarrow> toUpperCase example_platform x = upper_ascii x"
    by (simp add: example_upper)
  have el: "toUpperCase example_platform ''GET'' \<in> set (methods DEFAULT_RETRY_CONFIG) \<and>
      503 \<in> set (statusCodes DEFAULT_RETRY_CONFIG)"
    by (simp add: upper_GET DEFAULT_RETRY_CONFIG_def)
  from inst [THEN conjunct2, THEN conjunct2, THEN conjunct2, rule_format]
    law get_GET_differ_in_case
  have c12: "shouldRetry example_platform DEFAULT_RETRY_CONFIG ''get'' 503
      = shouldRetry example_platform DEFAULT_RETRY_CONFIG ''GET'' 503 \<and>
   handleTransportError example_platform DEFAULT_RETRY_CONFIG ''fetch failed'' ''get'' 1
     = handleTransportError example_platform DEFAULT_RETRY_CONFIG ''fetch failed'' ''GET'' 1"
    by blast
  from inst [THEN conjunct1] el
  have c3: "shouldRetry example_platform DEFAULT_RETRY_CONFIG ''GET'' 503"
    by blast
  from c12 c3 get_GET_differ_in_case show ?thesis by blast
qed

theorem entry_case_counterexample:
  "list_all2 differ_only_in_case (methods lower_get_policy) (methods get_only_policy) \<and>
   statusCodes lower_get_policy = statusCodes get_only_policy \<and>
   attempts lower_get_policy = attempts get_only_policy \<and>
   shouldRetry example_platform get_only_policy ''GET'' 503 \<and>
   \<not> shouldRetry example_platform lower_get_policy ''GET'' 503 \<and>
   \<not> isl (handleTransportError example_platform get_only_policy ''fetch failed'' ''GET'' 1) \<and>
   isl (handleTransportError example_platform lower_get_policy ''fetch failed'' ''GET'' 1)"
proof -
  have "differ_only_in_case ''get'' ''GET''" by code_simp
  then show ?thesis
    by (simp add: lower_get_policy_def get_only_policy_def shouldRetry_def
        handleTransportError_def upper_GET)
qed

section \<open>Response decoding\<close>

text \<open>
  Claim C6, as amended. Decoding a received response raises only when reading its body
  fails (and JSON decoding is not suppressed). With JSON decoding suppressed the raw
  response handle is returned as it is. Otherwise, when the body is read: an empty text
  gives \<open>null\<close>; a text that parses as JSON gives the parsed value; a non-empty text that
  does not parse gives the text itself.
\<close>

theorem maybeDecodeResponse_cases:
  "(\<not> parseJson \<longrightarrow> maybeDecodeResponse P r parseJson = Inr (RawResponse r)) \<and>
   (parseJson \<and> resp_text r = Inr [] \<longrightarrow>
      maybeDecodeResponse P r parseJson = Inr (Decoded JNull)) \<and>
   (parseJson \<and> resp_text r = Inr t \<and> t \<noteq> [] \<and> JSON_parse P t = Some v \<longrightarrow>
      maybeDecodeResponse P r parseJson = Inr (Decoded v)) \<and>
   (parseJson \<and> resp_text r = Inr t \<and> t \<noteq> [] \<and> JSON_parse P t = None \<longrightarrow>
      maybeDecodeResponse P r parseJson = Inr (Decoded (JStr t))) \<and>
   (parseJson \<and> resp_text r = Inl e \<longrightarrow> maybeDecodeResponse P r parseJson = Inl e) \<and>
   isl (maybeDecodeResponse P r parseJson) = (parseJson \<and> isl (resp_text r))"
  by (cases "resp_text r") (auto simp: maybeDecodeResponse_def split: option.splits)

theorem maybeDecodeResponse_cases_witness:
  \<open>maybeDecodeResponse example_platform (example_response 200 [] ''{"results":[]}'') True
     = Inr (Decoded (JObj [(''results'', JArr [])])) \<and>
   maybeDecodeResponse example_platform (example_response 200 [] ''OK'') True
     = Inr (Decoded (JStr ''OK'')) \<and>
   maybeDecodeResponse example_platform (example_response 204 [] []) True
     = Inr (Decoded JNull) \<and>
   maybeDecodeResponse example_platform (example_response 200 [] ''OK'') False
     = Inr (RawResponse (example_response 200 [] ''OK''))\<close>
proof -
  have p1: \<open>JSON_parse example_platform ''{"results":[]}'' = Some (JObj [(''results'', JArr [])])\<close>
    by (simp add: example_platform_def example_JSON_parse_def)
  have p2: "JSON_parse example_platform ''OK'' = None"
    by (simp add: example_platform_def example_JSON_parse_def)
  from maybeDecodeResponse_cases
         [of True example_platform \<open>example_response 200 [] ''{"results":[]}''\<close>
             \<open>''{"results":[]}''\<close> "JObj [(''results'', JArr [])]"] p1
  have c1: \<open>maybeDecodeResponse example_platform (example_response 200 [] ''{"results":[]}'') True
     = Inr (Decoded (JObj [(''results'', JArr [])]))\<close>
    by (simp add: example_response_def)
  from maybeDecodeResponse_cases [of True example_platform "example_response 200 [] ''OK''" "''OK''"] p2
  have c2: "maybeDecodeResponse example_platform (example_response 200 [] ''OK'') True
     = Inr (Decoded (JStr ''OK''))"
    by (simp add: example_response_def)
  from maybeDecodeResponse_cases [of True example_platform "example_response 204 [] []"]
  have c3: "maybeDecodeResponse example_platform (example_response 204 [] []) True
     = Inr (Decoded JNull)"
    by (simp add: example_response_def)
  from maybeDecodeResponse_cases [of False example_platform "example_response 200 [] ''OK''"]
  have c4: "maybeDecodeResponse example_platform (example_response 200 [] ''OK'') False
     = Inr (RawResponse (example_response 200 [] ''OK''))"
    by simp
  from c1 c2 c3 c4 show ?thesis by blast
qed

theorem decode_unreadable_counterexample:
  "status unreadable_response < 400 \<and>
   maybeDecodeResponse example_platform unreadable_response True = Inl (JSError ''terminated'')"
  by (simp add: unreadable_response_def maybeDecodeResponse_def)

section \<open>Error normalization\<close>

lemma fold_headers:
  "fold (\<lambda>(key, v) h. set_property h key v) hs m
     = m ++ map_of (rev (filter (\<lambda>(key, v). key \<noteq> ''__proto__'') hs))"
proof (induction hs arbitrary: m)
  case Nil
  show ?case by simp
next
  case (Cons x xs)
  obtain k v where x: "x = (k, v)" by (cases x)
  let ?own = "filter (\<lambda>(key, v). key \<noteq> ''__proto__'')"
  show ?case
  proof (cases "k = ''__proto__''")
    case True
    with Cons.IH [of m] x show ?thesis by (simp add: set_property_def)
  next
    case False
    have "fold (\<lambda>(key, v) h. set_property h key v) (x # xs) m
        = fold (\<lambda>(key, v) h. set_property h key v) xs (m(k \<mapsto> v))"
      using False by (simp add: x set_property_def)
    also have "\<dots> = m(k \<mapsto> v) ++ map_of (rev (?own xs))"
      by (rule Cons.IH)
    also have "\<dots> = m ++ map_of (rev (?own (x # xs)))"
      using False by (simp add: x map_add_assoc [symmetric])
    finally show ?thesis .
  qed
qed

text \<open>An attempt that is made decides the call like the run that starts at it.\<close>

lemma reached_attempt_from:
  "Fetch i \<in> set (snd (sendWithRetries_from P config auth retry net meth path options a)) \<Longrightarrow>
   a \<le> i \<and> i \<le> attempts retry \<and>
   fst (sendWithRetries_from P config auth retry net meth path options a)
     = fst (sendWithRetries_from P config auth retry net meth path options i)"
proof (induction P config auth retry net meth path options a rule: sendWithRetries_from.induct)
  case (1 P config auth retry net meth path options a)
  let ?run = "sendWithRetries_from P config auth retry net meth path options"
  show ?case
  proof (cases "a \<le> attempts retry")
    case False
    with "1.prems" show ?thesis
      by (simp add: sendWithRetries_from.simps [of _ _ _ _ _ _ _ _ a])
  next
    case True
    obtain st evs where ab:
      "attempt_body P config auth retry net meth path options a = (st, evs)"
      by (cases "attempt_body P config auth retry net meth path options a")
    have shape: "evs = [] \<or> evs = [Fetch a]"
      using attempt_body_events [of P config auth retry net meth path options a] ab by simp
    show ?thesis
    proof (cases "i = a")
      case ia: True
      with True show ?thesis by simp
    next
      case ia: False
      show ?thesis
      proof (cases st)
        case (Return r)
        have "?run a = (Inr r, evs)"
          using True ab Return by (simp add: sendWithRetries_from.simps [of _ _ _ _ _ _ _ _ a])
        with "1.prems" shape ia show ?thesis by auto
      next
        case (Throw e)
        have "?run a = (Inl e, evs)"
          using True ab Throw by (simp add: sendWithRetries_from.simps [of _ _ _ _ _ _ _ _ a])
        with "1.prems" shape ia show ?thesis by auto
      next
        case (Continue d)
        obtain res later where rec: "?run (a + 1) = (res, later)" by (cases "?run (a + 1)")
        have run: "?run a = (res, evs @ sleep_events d @ later)"
          using True ab Continue rec
          by (simp add: sendWithRetries_from.simps [of _ _ _ _ _ _ _ _ a])
        with "1.prems" shape ia have mem: "Fetch i \<in> set later"
          by (auto simp: sleep_events_def split: if_splits)
        from "1.IH" [OF True ab [symmetric] Continue] mem rec
        have "a + 1 \<le> i \<and> i \<le> attempts retry \<and> res = fst (?run i)" by simp
        with run show ?thesis by simp
      qed
    qed
  qed
qed

lemma refused_response_ends_call:
  assumes "buildRequest P config auth meth path options = Inr req"
    and "Fetch k \<in> set (snd (request P config auth retry net meth path options pj))"
    and "net k req = Fulfilled r"
    and "400 \<le> status r"
    and "\<not> (shouldRetry P retry meth (status r) \<and> k < attempts retry)"
  shows "fst (request P config auth retry net meth path options pj) = Inl (raiseAPIError P r)"
proof -
  let ?run = "sendWithRetries_from P config auth retry net meth path options"
  from assms(2) have "Fetch k \<in> set (snd (?run 1))" by (simp add: request_events)
  from reached_attempt_from [OF this]
  have k: "k \<le> attempts retry" and same: "fst (?run 1) = fst (?run k)" by auto
  have ab: "attempt_body P config auth retry net meth path options k
      = (Throw (raiseAPIError P r), [Fetch k])"
    using assms(1,3,4,5) by (auto simp: attempt_body_def)
  have "?run k = (Inl (raiseAPIError P r), [Fetch k])"
    using k ab by (subst sendWithRetries_from.simps) simp
  with same have "fst (?run 1) = Inl (raiseAPIError P r)" by simp
  then show ?thesis
    by (cases "?run 1") (simp add: request_def sendWithRetries_def)
qed

lemma raiseAPIError_no_body:
  assumes "resp_text r = Inr [] \<or> isl (resp_text r)"
  shows "raiseAPIError P r
     = FoxnoseAPIError
         \<lparr> ae_message = ''API request failed (status='' @ show_nat (status r) @ '')'',
           statusCode = status r, errorCode = None, detail = None,
           responseHeaders = map_of (rev (filter (\<lambda>(key, v). key \<noteq> ''__proto__'')
                                  (resp_headers r))), responseBody = None \<rparr>"
  using assms
  by (cases "resp_text r")
    (auto simp: raiseAPIError_def read_error_body_def new_FoxnoseAPIError_def
      error_code_suffix_def fold_headers)

lemma raiseAPIError_raw_text:
  assumes "resp_text r = Inr t" and "t \<noteq> []"
    and "JSON_parse P t = None \<or> JSON_parse P t = Some JNull"
  shows "raiseAPIError P r
     = FoxnoseAPIError
         \<lparr> ae_message = t @ '' (status='' @ show_nat (status r) @ '')'',
           statusCode = status r, errorCode = None, detail = None,
           responseHeaders = map_of (rev (filter (\<lambda>(key, v). key \<noteq> ''__proto__'')
                                  (resp_headers r))), responseBody = Some (JStr t) \<rparr>"
  using assms
  by (auto simp: raiseAPIError_def read_error_body_def new_FoxnoseAPIError_def
      error_code_suffix_def fold_headers)

lemma read_error_body_payload:
  assumes "resp_text r = Inr t" and "t \<noteq> []" and "JSON_parse P t = Some pl" and "pl \<noteq> JNull"
  shows "read_error_body P r
     = (nullish (get_prop pl ''message'') (JStr t), get_prop pl ''error_code'',
        get_prop pl ''detail'', Some pl)"
  using assms by (cases pl) (simp_all add: read_error_body_def)

text \<open>
  Claim C7, as amended. When a call of \<open>request\<close> makes an attempt that receives a
  response with status of 400 or more and does not retry it, the call ends with what
  \<open>raiseAPIError\<close> throws for that response. That is an API error carrying the response's
  status code and all its headers other than one named \<open>__proto__\<close>, also when the body
  cannot be read, except that a \<open>TypeError\<close> is thrown instead when the message or the
  error code is an object that cannot be rendered as a string. The error's message is the text \<open>m (status=S)\<close>, or
  \<open>m (status=S, error_code=C)\<close> when an error code was captured and is truthy, where \<open>m\<close>
  is found as follows and replaced by \<open>API request failed\<close> when empty. If the body text
  parses as JSON to a value other than \<open>null\<close>, \<open>m\<close> is the payload's \<open>message\<close> field
  when present and not \<open>null\<close> (else the raw text), the error code and detail are the
  payload's \<open>error_code\<close> and \<open>detail\<close> fields, and the body is the parsed payload. If
  the text is not empty and does not parse, or parses to \<open>null\<close>, \<open>m\<close> and the body are
  the raw text. If the body is empty or cannot be read, \<open>m\<close> is empty and there is no
  body.
\<close>

theorem raiseAPIError_fields:
  assumes "buildRequest P config auth meth path options = Inr req"
    and "Fetch k \<in> set (snd (request P config auth retry net meth path options pj))"
    and "net k req = Fulfilled r"
    and "400 \<le> status r"
    and "\<not> (shouldRetry P retry meth (status r) \<and> k < attempts retry)"
  shows "fst (request P config auth retry net meth path options pj) = Inl (raiseAPIError P r) \<and>
     (resp_text r = Inr [] \<or> isl (resp_text r) \<longrightarrow>
        raiseAPIError P r
          = FoxnoseAPIError
              \<lparr> ae_message = ''API request failed (status='' @ show_nat (status r) @ '')'',
                statusCode = status r, errorCode = None, detail = None,
                responseHeaders = map_of (rev (filter (\<lambda>(key, v). key \<noteq> ''__proto__'')
                                  (resp_headers r))), responseBody = None \<rparr>) \<and>
     (\<forall>t. resp_text r = Inr t \<and> t \<noteq> [] \<and>
           (JSON_parse P t = None \<or> JSON_parse P t = Some JNull) \<longrightarrow>
        raiseAPIError P r
          = FoxnoseAPIError
              \<lparr> ae_message = t @ '' (status='' @ show_nat (status r) @ '')'',
                statusCode = status r, errorCode = None, detail = None,
                responseHeaders = map_of (rev (filter (\<lambda>(key, v). key \<noteq> ''__proto__'')
                                  (resp_headers r))),
                responseBody = Some (JStr t) \<rparr>) \<and>
     (\<forall>t pl m c. resp_text r = Inr t \<and> t \<noteq> [] \<and> JSON_parse P t = Some pl \<and> pl \<noteq> JNull \<and>
           js_String (Number_toString P)
             (if truthy (nullish (get_prop pl ''message'') (JStr t))
              then nullish (get_prop pl ''message'') (JStr t)
              else JStr ''API request failed'') = Inr m \<and>
           error_code_suffix P (get_prop pl ''error_code'') = Inr c \<longrightarrow>
        raiseAPIError P r
          = FoxnoseAPIError
              \<lparr> ae_message = m @ '' (status='' @ show_nat (status r) @ c @ '')'',
                statusCode = status r, errorCode = get_prop pl ''error_code'',
                detail = get_prop pl ''detail'',
                responseHeaders = map_of (rev (filter (\<lambda>(key, v). key \<noteq> ''__proto__'')
                                  (resp_headers r))),
                responseBody = Some pl \<rparr>) \<and>
     (\<forall>t pl. resp_text r = Inr t \<and> t \<noteq> [] \<and> JSON_parse P t = Some pl \<and> pl \<noteq> JNull \<and>
           (isl (js_String (Number_toString P)
                  (if truthy (nullish (get_prop pl ''message'') (JStr t))
                   then nullish (get_prop pl ''message'') (JStr t)
                   else JStr ''API request failed'')) \<or>
            isl (error_code_suffix P (get_prop pl ''error_code''))) \<longrightarrow>
        raiseAPIError P r = TypeError)"
proof (intro conjI allI impI)
  show "fst (request P config auth retry net meth path options pj) = Inl (raiseAPIError P r)"
    using assms by (rule refused_response_ends_call)
next
  assume "resp_text r = Inr [] \<or> isl (resp_text r)"
  then show "raiseAPIError P r
          = FoxnoseAPIError
              \<lparr> ae_message = ''API request failed (status='' @ show_nat (status r) @ '')'',
                statusCode = status r, errorCode = None, detail = None,
                responseHeaders = map_of (rev (filter (\<lambda>(key, v). key \<noteq> ''__proto__'')
                                  (resp_headers r))), responseBody = None \<rparr>"
    by (rule raiseAPIError_no_body)
next
  fix t
  assume "resp_text r = Inr t \<and> t \<noteq> [] \<and>
           (JSON_parse P t = None \<or> JSON_parse P t = Some JNull)"
  then show "raiseAPIError P r
          = FoxnoseAPIError
              \<lparr> ae_message = t @ '' (status='' @ show_nat (status r) @ '')'',
                statusCode = status r, errorCode = None, detail = None,
                responseHeaders = map_of (rev (filter (\<lambda>(key, v). key \<noteq> ''__proto__'')
                                  (resp_headers r))),
                responseBody = Some (JStr t) \<rparr>"
    using raiseAPIError_raw_text [of r t P] by blast
next
  fix t pl m c
  assume h: "resp_text r = Inr t \<and> t \<noteq> [] \<and> JSON_parse P t = Some pl \<and> pl \<noteq> JNull \<and>
           js_String (Number_toString P)
             (if truthy (nullish (get_prop pl ''message'') (JStr t))
              then nullish (get_prop pl ''message'') (JStr t)
              else JStr ''API request failed'') = Inr m \<and>
           error_code_suffix P (get_prop pl ''error_code'') = Inr c"
  then have rb: "read_error_body P r
     = (nullish (get_prop pl ''message'') (JStr t), get_prop pl ''error_code'',
        get_prop pl ''detail'', Some pl)"
    using read_error_body_payload [of r t P pl] by blast
  from h show "raiseAPIError P r
          = FoxnoseAPIError
              \<lparr> ae_message = m @ '' (status='' @ show_nat (status r) @ c @ '')'',
                statusCode = status r, errorCode = get_prop pl ''error_code'',
                detail = get_prop pl ''detail'',
                responseHeaders = map_of (rev (filter (\<lambda>(key, v). key \<noteq> ''__proto__'')
                                  (resp_headers r))),
                responseBody = Some pl \<rparr>"
    by (simp add: raiseAPIError_def rb new_FoxnoseAPIError_def fold_headers)
next
  fix t pl
  assume h: "resp_text r = Inr t \<and> t \<noteq> [] \<and> JSON_parse P t = Some pl \<and> pl \<noteq> JNull \<and>
           (isl (js_String (Number_toString P)
                  (if truthy (nullish (get_prop pl ''message'') (JStr t))
                   then nullish (get_prop pl ''message'') (JStr t)
                   else JStr ''API request failed'')) \<or>
            isl (error_code_suffix P (get_prop pl ''error_code'')))"
  then have rb: "read_error_body P r
     = (nullish (get_prop pl ''message'') (JStr t), get_prop pl ''error_code'',
        get_prop pl ''detail'', Some pl)"
    using read_error_body_payload [of r t P pl] by blast
  let ?opts = "\<lparr> opt_message = (if truthy (nullish (get_prop pl ''message'') (JStr t))
                   then nullish (get_prop pl ''message'') (JStr t)
                   else JStr ''API request failed''),
             opt_statusCode = status r, opt_errorCode = get_prop pl ''error_code'',
             opt_detail = get_prop pl ''detail'',
             opt_responseHeaders = fold (\<lambda>(key, v) h. set_property h key v)
                                     (resp_headers r) Map.empty,
             opt_responseBody = Some pl \<rparr>"
  have "isl (js_String (Number_toString P) (opt_message ?opts)) \<or>
        isl (error_code_suffix P (opt_errorCode ?opts))"
    unfolding APIErrorOptions.select_convs using h by blast
  then have "new_FoxnoseAPIError P ?opts = Inl TypeError"
    by (rule new_FoxnoseAPIError_throws)
  then show "raiseAPIError P r = TypeError"
    by (simp add: raiseAPIError_def rb)
qed

lemma example_parse_not_found:
  \<open>JSON_parse example_platform ''{"message":"Not found","error_code":"not_found"}''
     = Some (JObj [(''message'', JStr ''Not found''), (''error_code'', JStr ''not_found'')])\<close>
  by (simp add: example_platform_def example_JSON_parse_def)

lemma example_parse_null: "JSON_parse example_platform ''null'' = Some JNull"
  by (simp add: example_platform_def example_JSON_parse_def)

theorem raiseAPIError_fields_witness:
  "request example_platform example_config AnonymousAuth_buildHeaders DEFAULT_RETRY_CONFIG
       (respond_with (\<lambda>k. not_found_response)) ''GET'' ''/items/7'' no_options None
     = (Inl (FoxnoseAPIError
         \<lparr> ae_message = ''Not found (status=404, error_code=not_found)'',
           statusCode = 404,
           errorCode = Some (JStr ''not_found''),
           detail = None,
           responseHeaders = [''content-type'' \<mapsto> ''application/json''],
           responseBody = Some (JObj [(''message'', JStr ''Not found''),
                                      (''error_code'', JStr ''not_found'')]) \<rparr>),
        [Fetch 1])"
proof -
  let ?pl = "JObj [(''message'', JStr ''Not found''), (''error_code'', JStr ''not_found'')]"
  let ?b = "buildRequest example_platform example_config AnonymousAuth_buildHeaders ''GET'' ''/items/7'' no_options"
  let ?net = "respond_with (\<lambda>k. not_found_response)"
  let ?run = "request example_platform example_config AnonymousAuth_buildHeaders
       DEFAULT_RETRY_CONFIG ?net ''GET'' ''/items/7'' no_options None"
  obtain req where a1: "?b = Inr req"
    using example_buildRequest_ok [of "''GET''" "''/items/7''"] by (cases ?b) auto
  have a3: "?net 1 req = Fulfilled not_found_response" by (simp add: respond_with_def)
  have a4: "400 \<le> status not_found_response"
    by (simp add: not_found_response_def example_response_def)
  have a5: "\<not> (shouldRetry example_platform DEFAULT_RETRY_CONFIG ''GET'' (status not_found_response)
      \<and> 1 < attempts DEFAULT_RETRY_CONFIG)"
    by (simp add: shouldRetry_def DEFAULT_RETRY_CONFIG_def not_found_response_def
        example_response_def)
  have ab: "attempt_body example_platform example_config AnonymousAuth_buildHeaders
      DEFAULT_RETRY_CONFIG ?net ''GET'' ''/items/7'' no_options 1
      = (Throw (raiseAPIError example_platform not_found_response), [Fetch 1])"
    using a1 a3 a4 a5 by (auto simp: attempt_body_def)
  have n: "1 \<le> attempts DEFAULT_RETRY_CONFIG" by (simp add: DEFAULT_RETRY_CONFIG_def)
  have "sendWithRetries_from example_platform example_config AnonymousAuth_buildHeaders
      DEFAULT_RETRY_CONFIG ?net ''GET'' ''/items/7'' no_options 1
      = (Inl (raiseAPIError example_platform not_found_response), [Fetch 1])"
    using n ab by (subst sendWithRetries_from.simps) simp
  then have evs: "snd ?run = [Fetch 1]"
    by (simp add: request_def sendWithRetries_def)
  then have a2: "Fetch 1 \<in> set (snd ?run)" by simp
  note inst = raiseAPIError_fields [of example_platform example_config
      AnonymousAuth_buildHeaders "''GET''" "''/items/7''" no_options req 1
      DEFAULT_RETRY_CONFIG ?net None not_found_response, OF a1 a2 a3 a4 a5]
  have tx: \<open>resp_text not_found_response
      = Inr ''{"message":"Not found","error_code":"not_found"}''\<close>
    by (simp add: not_found_response_def example_response_def)
  let ?tx = \<open>''{"message":"Not found","error_code":"not_found"}''\<close>
  have m: "js_String (Number_toString example_platform)
             (if truthy (nullish (get_prop ?pl ''message'') (JStr ?tx))
              then nullish (get_prop ?pl ''message'') (JStr ?tx)
              else JStr ''API request failed'') = Inr ''Not found''"
    by simp
  have c: "error_code_suffix example_platform (get_prop ?pl ''error_code'')
      = Inr '', error_code=not_found''"
    by (simp add: error_code_suffix_def)
  from inst [THEN conjunct2, THEN conjunct2, THEN conjunct2, THEN conjunct1, rule_format,
      of ?tx ?pl "''Not found''" "'', error_code=not_found''"]
    tx example_parse_not_found m c
  have "raiseAPIError example_platform not_found_response
          = FoxnoseAPIError
              \<lparr> ae_message = ''Not found'' @ '' (status='' @ show_nat (status not_found_response)
                   @ '', error_code=not_found'' @ '')'',
                statusCode = status not_found_response,
                errorCode = get_prop ?pl ''error_code'',
                detail = get_prop ?pl ''detail'',
                responseHeaders = map_of (rev (filter (\<lambda>(key, v). key \<noteq> ''__proto__'')
                                  (resp_headers not_found_response))),
                responseBody = Some ?pl \<rparr>"
    by simp
  then have err: "raiseAPIError example_platform not_found_response
     = FoxnoseAPIError
         \<lparr> ae_message = ''Not found (status=404, error_code=not_found)'',
           statusCode = 404, errorCode = Some (JStr ''not_found''), detail = None,
           responseHeaders = [''content-type'' \<mapsto> ''application/json''],
           responseBody = Some ?pl \<rparr>"
    by (simp add: not_found_response_def example_response_def show_nat_404)
  from inst [THEN conjunct1] have "fst ?run = Inl (raiseAPIError example_platform not_found_response)" .
  with err evs show ?thesis by (simp add: prod_eq_iff)
qed

theorem api_error_message_counterexample:
  "raiseAPIError example_platform not_found_response
     = FoxnoseAPIError
         \<lparr> ae_message = ''Not found (status=404, error_code=not_found)'',
           statusCode = 404,
           errorCode = Some (JStr ''not_found''),
           detail = None,
           responseHeaders = [''content-type'' \<mapsto> ''application/json''],
           responseBody = Some (JObj [(''message'', JStr ''Not found''),
                                      (''error_code'', JStr ''not_found'')]) \<rparr> \<and>
   ''Not found (status=404, error_code=not_found)'' \<noteq> ''Not found'' \<and>
   JSON_parse example_platform ''null'' = Some JNull \<and>
   raiseAPIError example_platform null_body_response
     = FoxnoseAPIError
         \<lparr> ae_message = ''null (status=500)'', statusCode = 500, errorCode = None,
           detail = None, responseHeaders = Map.empty,
           responseBody = Some (JStr ''null'') \<rparr> \<and>
   400 \<le> status toString_body_response \<and>
   raiseAPIError example_platform toString_body_response = TypeError \<and>
   resp_headers proto_header_response = [(''__proto__'', ''x''), (''x-request-id'', ''r1'')] \<and>
   raiseAPIError example_platform proto_header_response
     = FoxnoseAPIError
         \<lparr> ae_message = ''API request failed (status=500)'', statusCode = 500,
           errorCode = None, detail = None, responseHeaders = [''x-request-id'' \<mapsto> ''r1''],
           responseBody = None \<rparr>"
proof -
  have 1: "raiseAPIError example_platform not_found_response
     = FoxnoseAPIError
         \<lparr> ae_message = ''Not found (status=404, error_code=not_found)'',
           statusCode = 404,
           errorCode = Some (JStr ''not_found''),
           detail = None,
           responseHeaders = [''content-type'' \<mapsto> ''application/json''],
           responseBody = Some (JObj [(''message'', JStr ''Not found''),
                                      (''error_code'', JStr ''not_found'')]) \<rparr> \<and>
   ''Not found (status=404, error_code=not_found)'' \<noteq> ''Not found'' \<and>
   JSON_parse example_platform ''null'' = Some JNull \<and>
   raiseAPIError example_platform null_body_response
     = FoxnoseAPIError
         \<lparr> ae_message = ''null (status=500)'', statusCode = 500, errorCode = None,
           detail = None, responseHeaders = Map.empty,
           responseBody = Some (JStr ''null'') \<rparr>"
    by (simp add: raiseAPIError_def read_error_body_def new_FoxnoseAPIError_def
      error_code_suffix_def set_property_def
      not_found_response_def null_body_response_def example_response_def
      example_parse_not_found example_parse_null show_nat_404 show_nat_500)
  have 2: "400 \<le> status toString_body_response"
    by (simp add: toString_body_response_def example_response_def)
  have 3: "resp_headers proto_header_response = [(''__proto__'', ''x''), (''x-request-id'', ''r1'')]"
    by (simp add: proto_header_response_def example_response_def)
  have 4: "raiseAPIError example_platform proto_header_response
     = FoxnoseAPIError
         \<lparr> ae_message = ''API request failed (status=500)'', statusCode = 500,
           errorCode = None, detail = None, responseHeaders = [''x-request-id'' \<mapsto> ''r1''],
           responseBody = None \<rparr>"
    by (simp add: raiseAPIError_def read_error_body_def new_FoxnoseAPIError_def
      error_code_suffix_def set_property_def proto_header_response_def example_response_def
      show_nat_500)
  from 1 2 toString_body_error 3 4 show ?thesis by blast
qed

section \<open>Auth failures\<close>

text \<open>
  Claim C8. The token-based strategy built on a provider that yields the empty token: what
  \<open>buildHeaders\<close> throws is a plain \<open>Error\<close>, not a \<open>FoxnoseAuthError\<close>. It is thrown
  while the request is built, so the transport makes no network call and no retry.
\<close>

theorem jwt_empty_token_error:
  "JWTAuth_buildHeaders (fromStaticToken [] sch) rd
     = Inl (JSError ''Token provider returned an empty token'') \<and>
   (\<forall>msg. JWTAuth_buildHeaders (fromStaticToken [] sch) rd \<noteq> Inl (FoxnoseAuthError msg)) \<and>
   sendWithRetries P config (JWTAuth_buildHeaders (fromStaticToken [] sch)) retry net
       meth path options
     = (if 1 \<le> attempts retry
        then (Inl (JSError ''Token provider returned an empty token''), [])
        else (Inl (FoxnoseTransportError ''All retry attempts exhausted''), []))"
proof -
  have bh: "\<And>rd. JWTAuth_buildHeaders (fromStaticToken [] sch) rd
      = Inl (JSError ''Token provider returned an empty token'')"
    by (simp add: JWTAuth_buildHeaders_def fromStaticToken_def new_JWTAuth_def
        StaticTokenProvider_def)
  have br: "buildRequest P config (JWTAuth_buildHeaders (fromStaticToken [] sch)) meth path options
      = Inl (JSError ''Token provider returned an empty token'')"
    by (simp add: buildRequest_def bh Let_def split: prod.splits)
  have ab: "attempt_body P config (JWTAuth_buildHeaders (fromStaticToken [] sch)) retry net
      meth path options (Suc 0) = (Throw (JSError ''Token provider returned an empty token''), [])"
    by (simp add: attempt_body_def br)
  have "sendWithRetries P config (JWTAuth_buildHeaders (fromStaticToken [] sch)) retry net
       meth path options
     = (if 1 \<le> attempts retry
        then (Inl (JSError ''Token provider returned an empty token''), [])
        else (Inl (FoxnoseTransportError ''All retry attempts exhausted''), []))"
    unfolding sendWithRetries_def
    by (subst sendWithRetries_from.simps) (simp add: ab)
  with bh show ?thesis by simp
qed

section \<open>Request bodies\<close>







section \<open>Properties of the batch upsert\<close>

















section \<open>Properties of the signature-based auth\<close>

lemma digits_of_digits: "list_all is_digit (digits_of fuel n)"
proof (induction fuel arbitrary: n)
  case 0
  show ?case by simp
next
  case (Suc fuel)
  have d: "\<And>k::nat. k < 10 \<Longrightarrow> is_digit (char_of (48 + k))"
    by (simp add: is_digit_def)
  show ?case using Suc [of "n div 10"] d [of n] d [of "n mod 10"] by simp
qed

lemma digits_of_length:
  "n < 10 ^ k \<Longrightarrow> 0 < k \<Longrightarrow> length (digits_of fuel n) \<le> k"
proof (induction fuel arbitrary: n k)
  case 0
  show ?case by simp
next
  case (Suc fuel)
  show ?case
  proof (cases "n < 10")
    case True
    with Suc.prems(2) show ?thesis by simp
  next
    case False
    from Suc.prems(2) obtain k' where k: "k = Suc k'" by (cases k) auto
    with Suc.prems(1) have lt: "n div 10 < 10 ^ k'"
      by (simp add: less_mult_imp_div_less mult.commute)
    have "0 < k'" using False Suc.prems(1) k by (cases k') auto
    from Suc.IH [OF lt this] False k show ?thesis by simp
  qed
qed

lemma pad_left_3:
  assumes "n < 1000"
  shows "length (pad_left 3 n) = 3 \<and> list_all is_digit (pad_left 3 n)"
proof -
  have "length (show_nat n) \<le> 3"
    unfolding show_nat_def using digits_of_length [of n 3 "Suc n"] assms by simp
  moreover have "list_all is_digit (show_nat n)"
    unfolding show_nat_def by (rule digits_of_digits)
  moreover have "is_digit CHR ''0''" by (simp add: is_digit_def)
  ultimately show ?thesis by (auto simp: pad_left_def list_all_iff)
qed

lemma replace_millis_strip:
  assumes "length ds = 3" and "list_all is_digit ds"
  shows "replace_millis (xs @ ''.'' @ ds @ ''Z'') = xs @ ''Z''"
proof -
  from assms(1) obtain a b c where ds: "ds = [a, b, c]"
    by (cases ds; cases "tl ds"; cases "tl (tl ds)") auto
  with assms(2) show ?thesis by (simp add: replace_millis_def)
qed

text \<open>
  Evaluating the decimal rendering and the calendar on numerals, and \<open>toISOString\<close> at
  the epoch, around the years 0 and 10000, and at the limits.
\<close>

lemma digits_of_fuel:
  "n < f \<Longrightarrow> n < f' \<Longrightarrow> digits_of f n = digits_of f' n"
proof (induction f arbitrary: n f')
  case 0
  then show ?case by simp
next
  case (Suc f)
  from Suc.prems(2) obtain g where g: "f' = Suc g" by (cases f') auto
  show ?case
  proof (cases "n < 10")
    case True
    then show ?thesis by (simp add: g)
  next
    case False
    then have "n div 10 < f" "n div 10 < g" using Suc.prems g by auto
    from Suc.IH [OF this] False show ?thesis by (simp add: g)
  qed
qed

lemma show_nat_rec:
  "show_nat n = (if n < 10 then [char_of (48 + n)]
                 else show_nat (n div 10) @ [char_of (48 + n mod 10)])"
proof (cases "n < 10")
  case True
  then show ?thesis by (simp add: show_nat_def)
next
  case False
  then have "digits_of n (n div 10) = digits_of (Suc (n div 10)) (n div 10)"
    by (intro digits_of_fuel) auto
  with False show ?thesis by (simp add: show_nat_def)
qed

lemma digit_chars:
  "char_of (48::nat) = CHR ''0''" "char_of (49::nat) = CHR ''1''" "char_of (50::nat) = CHR ''2''"
  "char_of (51::nat) = CHR ''3''" "char_of (52::nat) = CHR ''4''" "char_of (53::nat) = CHR ''5''"
  "char_of (54::nat) = CHR ''6''" "char_of (55::nat) = CHR ''7''" "char_of (56::nat) = CHR ''8''"
  "char_of (57::nat) = CHR ''9''"
  by code_simp+

lemma date_from_days_examples:
  "date_from_days 0 = (1970, 1, 1)"
  "date_from_days 19889 = (2024, 6, 15)"
  "date_from_days 2932896 = (9999, 12, 31)"
  "date_from_days 2932897 = (10000, 1, 1)"
  "date_from_days (- 719528) = (0, 1, 1)"
  "date_from_days (- 719529) = (- 1, 12, 31)"
  "date_from_days 100000000 = (275760, 9, 13)"
  by code_simp+

lemma replicate_small:
  "replicate 2 c = [c, c]" "replicate 3 c = [c, c, c]" "replicate 4 c = [c, c, c, c]"
  "replicate 5 c = [c, c, c, c, c]"
  by (simp_all add: numeral_eq_Suc)

lemmas date_eval = date_time_part_def date_from_days_examples year_string_def pad_left_def
  show_nat_rec digit_chars replicate_small toISOString_def valid_time_def

lemma toISOString_examples:
  "toISOString (Time 0) = Inr ''1970-01-01T00:00:00.000Z''"
  "toISOString (Time 253402300799999) = Inr ''9999-12-31T23:59:59.999Z''"
  "toISOString (Time 253402300800000) = Inr ''+010000-01-01T00:00:00.000Z''"
  "toISOString (Time (- 62167219200000)) = Inr ''0000-01-01T00:00:00.000Z''"
  "toISOString (Time (- 62167219200001)) = Inr ''-000001-12-31T23:59:59.999Z''"
  "toISOString (Time 8640000000000000) = Inr ''+275760-09-13T00:00:00.000Z''"
  "toISOString (Time 8640000000000001) = Inl RangeError"
  "toISOString Invalid_Date = Inl RangeError"
  by (simp_all add: date_eval)
lemma timestamp_seconds:
  assumes "sec_clock a () = Time t" and "valid_time t"
  shows "signing_timestamp a = Inr (date_time_part (t div 1000) @ ''Z'')"
proof -
  have "nat (t mod 1000) < 1000" by simp
  from pad_left_3 [OF this] replace_millis_strip
  have "replace_millis (date_time_part (t div 1000) @ ''.'' @ pad_left 3 (nat (t mod 1000)) @ ''Z'')
      = date_time_part (t div 1000) @ ''Z''"
    by blast
  with assms show ?thesis by (simp add: signing_timestamp_def toISOString_def)
qed

lemma timestamp_invalid:
  assumes "sec_clock a () = Invalid_Date \<or> (\<exists>t. sec_clock a () = Time t \<and> \<not> valid_time t)"
  shows "signing_timestamp a = Inl RangeError"
  using assms by (auto simp: signing_timestamp_def toISOString_def)

lemma secure_headers_shape:
  assumes "SecureKeyAuth_buildHeaders N draw a rd = Inr h"
  shows "\<exists>ts sg. signing_timestamp a = Inr ts \<and>
           createSign_sign N draw (sec_privateKeyPem a) (dataToSign N rd ts) = Inr sg \<and>
           h = [''Authorization'' \<mapsto>
                  ''Secure '' @ sec_publicKey a @ '':'' @ toString_base64 N sg,
                ''Date'' \<mapsto> ts]"
  using assms by (auto simp: SecureKeyAuth_buildHeaders_def split: sum.splits)

lemma two_headers_eq:
  "([''Authorization'' \<mapsto> x, ''Date'' \<mapsto> d] = [''Authorization'' \<mapsto> y, ''Date'' \<mapsto> d])
     = (x = y)"
proof
  assume "[''Authorization'' \<mapsto> x, ''Date'' \<mapsto> d] = [''Authorization'' \<mapsto> y, ''Date'' \<mapsto> d]"
  then have "[''Authorization'' \<mapsto> x, ''Date'' \<mapsto> d] ''Authorization''
      = [''Authorization'' \<mapsto> y, ''Date'' \<mapsto> d] ''Authorization''"
    by (rule fun_cong)
  then show "x = y" by simp
next
  assume "x = y"
  then show "[''Authorization'' \<mapsto> x, ''Date'' \<mapsto> d] = [''Authorization'' \<mapsto> y, ''Date'' \<mapsto> d]"
    by simp
qed

text \<open>
  Claim C4, as amended. A call of \<open>buildHeaders\<close> with a valid clock value, which the
  signer does not fail, returns exactly two headers: \<open>Date\<close>, the clock's time at second
  precision, and \<open>Authorization\<close>, which is \<open>Secure <public>:\<close> followed by the base64
  of the signature the signer returns for the text \<open><path>|<sha256(body)>|<timestamp>\<close>.
  Two calls with identical input have the same \<open>Date\<close>, sign the same text, and yield
  identical header mappings exactly when the signer returns the same base64 signature both
  times. Varying only the timestamp, only the signed path or only the body's digest changes
  the signed text. Clock values within the same second give the same \<open>Date\<close> and the
  same signed text. An invalid clock value makes the call throw a \<open>RangeError\<close>.
\<close>

theorem secure_headers_signed_text:
  "(signing_timestamp a = Inr ts \<and>
    createSign_sign N draw (sec_privateKeyPem a) (dataToSign N rd ts) = Inr sg \<longrightarrow>
      SecureKeyAuth_buildHeaders N draw a rd
        = Inr [''Authorization'' \<mapsto>
                 ''Secure '' @ sec_publicKey a @ '':'' @ toString_base64 N sg,
               ''Date'' \<mapsto> ts]) \<and>
   (SecureKeyAuth_buildHeaders N draw a rd = Inr h \<and>
    SecureKeyAuth_buildHeaders N draw' a rd = Inr h' \<longrightarrow>
      (\<exists>stamp s s'.
         signing_timestamp a = Inr stamp \<and>
         createSign_sign N draw (sec_privateKeyPem a) (dataToSign N rd stamp) = Inr s \<and>
         createSign_sign N draw' (sec_privateKeyPem a) (dataToSign N rd stamp) = Inr s' \<and>
         h = [''Authorization'' \<mapsto>
                ''Secure '' @ sec_publicKey a @ '':'' @ toString_base64 N s,
              ''Date'' \<mapsto> stamp] \<and>
         h' = [''Authorization'' \<mapsto>
                 ''Secure '' @ sec_publicKey a @ '':'' @ toString_base64 N s',
               ''Date'' \<mapsto> stamp] \<and>
         (h = h') = (toString_base64 N s = toString_base64 N s'))) \<and>
   (ts' \<noteq> ts \<longrightarrow> dataToSign N rd ts' \<noteq> dataToSign N rd ts) \<and>
   (signed_path N rd' \<noteq> signed_path N rd \<and>
    sha256_hex N (body_or_empty rd') = sha256_hex N (body_or_empty rd) \<longrightarrow>
      dataToSign N rd' ts \<noteq> dataToSign N rd ts) \<and>
   (sha256_hex N (body_or_empty rd') \<noteq> sha256_hex N (body_or_empty rd) \<and>
    signed_path N rd' = signed_path N rd \<longrightarrow>
      dataToSign N rd' ts \<noteq> dataToSign N rd ts) \<and>
   (sec_clock a () = Time t \<and> sec_clock a' () = Time t' \<and> valid_time t \<and> valid_time t' \<and>
    t div 1000 = t' div 1000 \<and>
    sec_publicKey a' = sec_publicKey a \<and> sec_privateKeyPem a' = sec_privateKeyPem a \<longrightarrow>
      signing_timestamp a = Inr (date_time_part (t div 1000) @ ''Z'') \<and>
      signing_timestamp a' = signing_timestamp a \<and>
      SecureKeyAuth_buildHeaders N draw a' rd = SecureKeyAuth_buildHeaders N draw a rd) \<and>
   (sec_clock a () = Invalid_Date \<or> (\<exists>u. sec_clock a () = Time u \<and> \<not> valid_time u) \<longrightarrow>
      SecureKeyAuth_buildHeaders N draw a rd = Inl RangeError)"
proof (intro conjI impI)
  assume "signing_timestamp a = Inr ts \<and>
    createSign_sign N draw (sec_privateKeyPem a) (dataToSign N rd ts) = Inr sg"
  then show "SecureKeyAuth_buildHeaders N draw a rd
        = Inr [''Authorization'' \<mapsto>
                 ''Secure '' @ sec_publicKey a @ '':'' @ toString_base64 N sg,
               ''Date'' \<mapsto> ts]"
    by (simp add: SecureKeyAuth_buildHeaders_def)
next
  assume h: "SecureKeyAuth_buildHeaders N draw a rd = Inr h \<and>
    SecureKeyAuth_buildHeaders N draw' a rd = Inr h'"
  from h secure_headers_shape [of N draw a rd h] obtain stamp s where
    1: "signing_timestamp a = Inr stamp"
      "createSign_sign N draw (sec_privateKeyPem a) (dataToSign N rd stamp) = Inr s"
      "h = [''Authorization'' \<mapsto>
                ''Secure '' @ sec_publicKey a @ '':'' @ toString_base64 N s,
              ''Date'' \<mapsto> stamp]"
    by blast
  from h secure_headers_shape [of N draw' a rd h'] 1(1) obtain s' where
    2: "createSign_sign N draw' (sec_privateKeyPem a) (dataToSign N rd stamp) = Inr s'"
      "h' = [''Authorization'' \<mapsto>
                 ''Secure '' @ sec_publicKey a @ '':'' @ toString_base64 N s',
               ''Date'' \<mapsto> stamp]"
    by auto
  have "(h = h') = (toString_base64 N s = toString_base64 N s')"
    unfolding 1(3) 2(2) two_headers_eq by simp
  with 1 2 show "\<exists>stamp s s'.
         signing_timestamp a = Inr stamp \<and>
         createSign_sign N draw (sec_privateKeyPem a) (dataToSign N rd stamp) = Inr s \<and>
         createSign_sign N draw' (sec_privateKeyPem a) (dataToSign N rd stamp) = Inr s' \<and>
         h = [''Authorization'' \<mapsto>
                ''Secure '' @ sec_publicKey a @ '':'' @ toString_base64 N s,
              ''Date'' \<mapsto> stamp] \<and>
         h' = [''Authorization'' \<mapsto>
                 ''Secure '' @ sec_publicKey a @ '':'' @ toString_base64 N s',
               ''Date'' \<mapsto> stamp] \<and>
         (h = h') = (toString_base64 N s = toString_base64 N s')"
    by blast
next
  assume "ts' \<noteq> ts"
  then show "dataToSign N rd ts' \<noteq> dataToSign N rd ts"
    by (simp add: dataToSign_def)
next
  assume "signed_path N rd' \<noteq> signed_path N rd \<and>
    sha256_hex N (body_or_empty rd') = sha256_hex N (body_or_empty rd)"
  then show "dataToSign N rd' ts \<noteq> dataToSign N rd ts"
    by (simp add: dataToSign_def)
next
  assume "sha256_hex N (body_or_empty rd') \<noteq> sha256_hex N (body_or_empty rd) \<and>
    signed_path N rd' = signed_path N rd"
  then show "dataToSign N rd' ts \<noteq> dataToSign N rd ts"
    by (simp add: dataToSign_def)
next
  assume h: "sec_clock a () = Time t \<and> sec_clock a' () = Time t' \<and> valid_time t \<and>
    valid_time t' \<and> t div 1000 = t' div 1000 \<and>
    sec_publicKey a' = sec_publicKey a \<and> sec_privateKeyPem a' = sec_privateKeyPem a"
  then show 1: "signing_timestamp a = Inr (date_time_part (t div 1000) @ ''Z'')"
    using timestamp_seconds [of a t] by blast
  from h have "signing_timestamp a' = Inr (date_time_part (t' div 1000) @ ''Z'')"
    using timestamp_seconds [of a' t'] by blast
  with 1 h show 2: "signing_timestamp a' = signing_timestamp a" by simp
  with h show "SecureKeyAuth_buildHeaders N draw a' rd = SecureKeyAuth_buildHeaders N draw a rd"
    by (simp add: SecureKeyAuth_buildHeaders_def split: sum.splits)
next
  assume "sec_clock a () = Invalid_Date \<or> (\<exists>u. sec_clock a () = Time u \<and> \<not> valid_time u)"
  then have "signing_timestamp a = Inl RangeError" by (rule timestamp_invalid)
  then show "SecureKeyAuth_buildHeaders N draw a rd = Inl RangeError"
    by (simp add: SecureKeyAuth_buildHeaders_def)
qed

lemma example_secure_auth_keys:
  "sec_publicKey (example_secure_auth d) = ''pubkey''"
  "sec_privateKeyPem (example_secure_auth d) = ''pem''"
  "sec_clock (example_secure_auth d) () = d"
  by (simp_all add: example_secure_auth_def)

lemma noon_seconds: "date_time_part (1718452800000 div 1000) @ ''Z'' = ''2024-06-15T12:00:00Z''"
  by (simp add: date_eval)

lemma noon_timestamp:
  "signing_timestamp (example_secure_auth noon) = Inr ''2024-06-15T12:00:00Z''"
  using timestamp_seconds [of "example_secure_auth noon" 1718452800000]
  by (simp only: example_secure_auth_keys noon_def noon_seconds) (simp add: valid_time_def)

lemma half_second_timestamp:
  "signing_timestamp (example_secure_auth noon_and_a_half_second) = Inr ''2024-06-15T12:00:00Z''"
proof -
  have "(1718452800500::int) div 1000 = 1718452800000 div 1000" by simp
  with timestamp_seconds [of "example_secure_auth noon_and_a_half_second" 1718452800500]
  show ?thesis
    by (simp only: example_secure_auth_keys noon_and_a_half_second_def noon_seconds)
      (simp add: valid_time_def)
qed

lemma minute_seconds:
  "date_time_part (1718452860000 div 1000) @ ''Z'' = ''2024-06-15T12:01:00Z''"
  by (simp add: date_eval)

lemma example_signed_text:
  "dataToSign example_node example_request_data ''2024-06-15T12:00:00Z''
     = ''/v1/test|e3b0c44298fc1c149afbf4c8996fb92427ae41e4649b934ca495991b7852b855|2024-06-15T12:00:00Z''"
  by (simp add: dataToSign_def signed_path_def body_or_empty_def example_node_def
      example_request_data_def)

theorem secure_headers_signed_text_witness:
  "SecureKeyAuth_buildHeaders example_node 0 (example_secure_auth noon) example_request_data
     = Inr [''Authorization'' \<mapsto>
              ''Secure pubkey:/v1/test|e3b0c44298fc1c149afbf4c8996fb92427ae41e4649b934ca495991b7852b855|2024-06-15T12:00:00Z'',
            ''Date'' \<mapsto> ''2024-06-15T12:00:00Z''] \<and>
   SecureKeyAuth_buildHeaders example_node 0 (example_secure_auth noon_and_a_half_second)
       example_request_data
     = SecureKeyAuth_buildHeaders example_node 0 (example_secure_auth noon) example_request_data \<and>
   dataToSign example_node other_request_data ''2024-06-15T12:00:00Z''
     \<noteq> dataToSign example_node example_request_data ''2024-06-15T12:00:00Z'' \<and>
   SecureKeyAuth_buildHeaders example_node 0 (example_secure_auth Invalid_Date)
       example_request_data = Inl RangeError \<and>
   SecureKeyAuth_buildHeaders example_node 1 (example_secure_auth noon) example_request_data
     = SecureKeyAuth_buildHeaders example_node 0 (example_secure_auth noon) example_request_data \<and>
   signing_timestamp (example_secure_auth a_minute_past_noon) = Inr ''2024-06-15T12:01:00Z'' \<and>
   dataToSign example_node example_request_data ''2024-06-15T12:01:00Z''
     \<noteq> dataToSign example_node example_request_data ''2024-06-15T12:00:00Z''"
proof -
  let ?text = "''/v1/test|e3b0c44298fc1c149afbf4c8996fb92427ae41e4649b934ca495991b7852b855|2024-06-15T12:00:00Z''"
  let ?ts = "''2024-06-15T12:00:00Z''"
  let ?a = "example_secure_auth noon"
  note inst = secure_headers_signed_text [where a = ?a and ts = ?ts and N = example_node
      and draw = 0 and rd = example_request_data and sg = ?text and rd' = other_request_data
      and t = 1718452800000 and a' = "example_secure_auth noon_and_a_half_second"
      and t' = 1718452800500]
  have sg: "signing_timestamp ?a = Inr ?ts \<and>
      createSign_sign example_node 0 (sec_privateKeyPem ?a)
        (dataToSign example_node example_request_data ?ts) = Inr ?text"
    unfolding example_signed_text by (simp add: noon_timestamp example_node_def)
  have b64: "toString_base64 example_node ?text = ?text" by (simp add: example_node_def)
  from inst [THEN conjunct1, rule_format, OF sg]
  have c1: "SecureKeyAuth_buildHeaders example_node 0 ?a example_request_data
     = Inr [''Authorization'' \<mapsto> ''Secure pubkey:'' @ ?text, ''Date'' \<mapsto> ?ts]"
    by (simp only: example_secure_auth_keys b64 append.simps)
  have ms: "sec_clock ?a () = Time 1718452800000 \<and>
      sec_clock (example_secure_auth noon_and_a_half_second) () = Time 1718452800500 \<and>
      valid_time 1718452800000 \<and> valid_time 1718452800500 \<and>
      (1718452800000::int) div 1000 = 1718452800500 div 1000 \<and>
      sec_publicKey (example_secure_auth noon_and_a_half_second) = sec_publicKey ?a \<and>
      sec_privateKeyPem (example_secure_auth noon_and_a_half_second) = sec_privateKeyPem ?a"
    by (simp add: example_secure_auth_keys noon_def noon_and_a_half_second_def valid_time_def)
  from inst [THEN conjunct2, THEN conjunct2, THEN conjunct2, THEN conjunct2, THEN conjunct2,
      THEN conjunct1, rule_format, OF ms]
  have c2: "SecureKeyAuth_buildHeaders example_node 0 (example_secure_auth noon_and_a_half_second)
       example_request_data
     = SecureKeyAuth_buildHeaders example_node 0 ?a example_request_data"
    by blast
  have pe: "signed_path example_node other_request_data
      \<noteq> signed_path example_node example_request_data \<and>
      sha256_hex example_node (body_or_empty other_request_data)
      = sha256_hex example_node (body_or_empty example_request_data)"
    by (simp add: signed_path_def body_or_empty_def example_node_def other_request_data_def
        example_request_data_def)
  from inst [THEN conjunct2, THEN conjunct2, THEN conjunct2, THEN conjunct1, rule_format, OF pe]
  have c3: "dataToSign example_node other_request_data ?ts
      \<noteq> dataToSign example_node example_request_data ?ts" .
  from secure_headers_signed_text [where a = "example_secure_auth Invalid_Date"
      and N = example_node and draw = 0 and rd = example_request_data,
      THEN conjunct2, THEN conjunct2, THEN conjunct2, THEN conjunct2, THEN conjunct2,
      THEN conjunct2, rule_format]
  have c4: "SecureKeyAuth_buildHeaders example_node 0 (example_secure_auth Invalid_Date)
       example_request_data = Inl RangeError"
    by (simp add: example_secure_auth_keys)
  from c1 have c1': "SecureKeyAuth_buildHeaders example_node 0 ?a example_request_data
     = Inr [''Authorization'' \<mapsto>
              ''Secure pubkey:/v1/test|e3b0c44298fc1c149afbf4c8996fb92427ae41e4649b934ca495991b7852b855|2024-06-15T12:00:00Z'',
            ''Date'' \<mapsto> ''2024-06-15T12:00:00Z'']"
    by simp
  have sg1: "signing_timestamp ?a = Inr ?ts \<and>
      createSign_sign example_node 1 (sec_privateKeyPem ?a)
        (dataToSign example_node example_request_data ?ts) = Inr ?text"
    unfolding example_signed_text by (simp add: noon_timestamp example_node_def)
  from secure_headers_signed_text [where a = ?a and ts = ?ts and N = example_node
      and draw = 1 and rd = example_request_data and sg = ?text,
      THEN conjunct1, rule_format, OF sg1]
  obtain h' where hh': "SecureKeyAuth_buildHeaders example_node 1 ?a example_request_data = Inr h'"
    by blast
  obtain h where hh: "SecureKeyAuth_buildHeaders example_node 0 ?a example_request_data = Inr h"
    using c1 by blast
  from secure_headers_signed_text [where a = ?a and N = example_node
      and draw = 0 and draw' = 1 and rd = example_request_data and h = h and h' = h',
      THEN conjunct2, THEN conjunct1, rule_format] hh hh'
  obtain stamp s s' where
    "createSign_sign example_node 0 (sec_privateKeyPem ?a)
       (dataToSign example_node example_request_data stamp) = Inr s"
    "createSign_sign example_node 1 (sec_privateKeyPem ?a)
       (dataToSign example_node example_request_data stamp) = Inr s'"
    "(h = h') = (toString_base64 example_node s = toString_base64 example_node s')"
    by blast
  then have "h = h'" by (simp add: example_node_def)
  with hh hh' have c5: "SecureKeyAuth_buildHeaders example_node 1 ?a example_request_data
     = SecureKeyAuth_buildHeaders example_node 0 ?a example_request_data"
    by simp
  let ?m = "example_secure_auth a_minute_past_noon"
  have mn: "sec_clock ?m () = Time 1718452860000 \<and> sec_clock ?m () = Time 1718452860000 \<and>
      valid_time 1718452860000 \<and> valid_time 1718452860000 \<and>
      (1718452860000::int) div 1000 = 1718452860000 div 1000 \<and>
      sec_publicKey ?m = sec_publicKey ?m \<and> sec_privateKeyPem ?m = sec_privateKeyPem ?m"
    by (simp add: example_secure_auth_keys a_minute_past_noon_def valid_time_def)
  from secure_headers_signed_text [where a = ?m and a' = ?m and t = 1718452860000
      and t' = 1718452860000 and N = example_node,
      THEN conjunct2, THEN conjunct2, THEN conjunct2, THEN conjunct2, THEN conjunct2,
      THEN conjunct1, rule_format, OF mn, THEN conjunct1]
  have c6: "signing_timestamp ?m = Inr ''2024-06-15T12:01:00Z''"
    by (simp only: minute_seconds)
  have "''2024-06-15T12:01:00Z'' \<noteq> ''2024-06-15T12:00:00Z''" by simp
  from secure_headers_signed_text [where ts' = "''2024-06-15T12:01:00Z''" and ts = ?ts
      and N = example_node and rd = example_request_data,
      THEN conjunct2, THEN conjunct2, THEN conjunct1, rule_format, OF this]
  have c7: "dataToSign example_node example_request_data ''2024-06-15T12:01:00Z''
     \<noteq> dataToSign example_node example_request_data ''2024-06-15T12:00:00Z''" .
  from c1' c2 c3 c4 c5 c6 c7 show ?thesis by (intro conjI)
qed

lemma show_nat_0_1: "show_nat 0 = ''0''" "show_nat (Suc 0) = ''1''"
  by code_simp+

theorem clock_millis_counterexample:
  "noon_and_a_half_second \<noteq> noon \<and>
   (\<forall>N draw.
      SecureKeyAuth_buildHeaders N draw (example_secure_auth noon_and_a_half_second)
          example_request_data
        = SecureKeyAuth_buildHeaders N draw (example_secure_auth noon) example_request_data) \<and>
   (\<forall>N. \<not> ((\<forall>n1 n2.
              SecureKeyAuth_buildHeaders N n1 (example_secure_auth noon) example_request_data
                = SecureKeyAuth_buildHeaders N n2 (example_secure_auth noon) example_request_data) \<and>
            (\<forall>n1 n2.
              SecureKeyAuth_buildHeaders N n1 (example_secure_auth noon_and_a_half_second)
                  example_request_data
                \<noteq> SecureKeyAuth_buildHeaders N n2 (example_secure_auth noon)
                    example_request_data))) \<and>
   SecureKeyAuth_buildHeaders drawing_node 0 (example_secure_auth noon) example_request_data
     = Inr [''Authorization'' \<mapsto>
              ''Secure pubkey:0:/v1/test|e3b0c44298fc1c149afbf4c8996fb92427ae41e4649b934ca495991b7852b855|2024-06-15T12:00:00Z'',
            ''Date'' \<mapsto> ''2024-06-15T12:00:00Z''] \<and>
   SecureKeyAuth_buildHeaders drawing_node 1 (example_secure_auth noon) example_request_data
     = Inr [''Authorization'' \<mapsto>
              ''Secure pubkey:1:/v1/test|e3b0c44298fc1c149afbf4c8996fb92427ae41e4649b934ca495991b7852b855|2024-06-15T12:00:00Z'',
            ''Date'' \<mapsto> ''2024-06-15T12:00:00Z'']"
proof -
  have ne: "noon_and_a_half_second \<noteq> noon"
    by (simp add: noon_and_a_half_second_def noon_def)
  have same: "\<And>N draw.
      SecureKeyAuth_buildHeaders N draw (example_secure_auth noon_and_a_half_second)
          example_request_data
        = SecureKeyAuth_buildHeaders N draw (example_secure_auth noon) example_request_data"
    by (simp add: SecureKeyAuth_buildHeaders_def noon_timestamp
        half_second_timestamp example_secure_auth_keys split: sum.splits)
  have both: "\<forall>N. \<not> ((\<forall>n1 n2.
              SecureKeyAuth_buildHeaders N n1 (example_secure_auth noon) example_request_data
                = SecureKeyAuth_buildHeaders N n2 (example_secure_auth noon) example_request_data) \<and>
            (\<forall>n1 n2.
              SecureKeyAuth_buildHeaders N n1 (example_secure_auth noon_and_a_half_second)
                  example_request_data
                \<noteq> SecureKeyAuth_buildHeaders N n2 (example_secure_auth noon)
                    example_request_data))"
    using same by metis
  have dt: "dataToSign drawing_node example_request_data ''2024-06-15T12:00:00Z''
     = ''/v1/test|e3b0c44298fc1c149afbf4c8996fb92427ae41e4649b934ca495991b7852b855|2024-06-15T12:00:00Z''"
    by (simp add: dataToSign_def signed_path_def body_or_empty_def drawing_node_def
        example_node_def example_request_data_def)
  have sgn: "\<And>n key text. createSign_sign drawing_node n key text
      = Inr (show_nat n @ '':'' @ text)"
    by (simp add: drawing_node_def)
  have b64: "\<And>b. toString_base64 drawing_node b = b"
    by (simp add: drawing_node_def example_node_def)
  have d0: "SecureKeyAuth_buildHeaders drawing_node 0 (example_secure_auth noon) example_request_data
     = Inr [''Authorization'' \<mapsto>
              ''Secure pubkey:0:/v1/test|e3b0c44298fc1c149afbf4c8996fb92427ae41e4649b934ca495991b7852b855|2024-06-15T12:00:00Z'',
            ''Date'' \<mapsto> ''2024-06-15T12:00:00Z'']"
    by (simp add: SecureKeyAuth_buildHeaders_def noon_timestamp dt sgn b64
        example_secure_auth_keys show_nat_0_1)
  have d1: "SecureKeyAuth_buildHeaders drawing_node 1 (example_secure_auth noon) example_request_data
     = Inr [''Authorization'' \<mapsto>
              ''Secure pubkey:1:/v1/test|e3b0c44298fc1c149afbf4c8996fb92427ae41e4649b934ca495991b7852b855|2024-06-15T12:00:00Z'',
            ''Date'' \<mapsto> ''2024-06-15T12:00:00Z'']"
    by (simp add: SecureKeyAuth_buildHeaders_def noon_timestamp dt sgn b64
        example_secure_auth_keys show_nat_0_1)
  from ne same both d0 d1 show ?thesis by (intro conjI allI) auto
qed

end
